theory Spec2Isabelle
  imports Complex_Main "HOL-Library.AList"
begin

section \<open>Python values, exceptions and the builtins the engine uses\<close>

text \<open>
  The engine of \<^verbatim>\<open>src/python/helpers/workflow_engine.py\<close> works on JSON-like Python
  objects (\<^verbatim>\<open>Dict[str, Any]\<close>). A raise is a value \<open>Inl e\<close> of a sum type; every function
  of the source that can raise returns \<open>exn + 'a\<close>.
\<close>

datatype exn_class =
  KeyError | TypeError | AttributeError | ValueError | NameError | IndexError |
  OverflowError | RecursionError | PlainException | ExternalFault |
  SystemExit | KeyboardInterrupt | GeneratorExit | CancelledError

text \<open>
  \<^verbatim>\<open>issubclass(c, Exception)\<close>, which is what \<^verbatim>\<open>except Exception\<close> tests. \<^verbatim>\<open>SystemExit\<close>,
  \<^verbatim>\<open>KeyboardInterrupt\<close>, \<^verbatim>\<open>GeneratorExit\<close> and \<^verbatim>\<open>asyncio.CancelledError\<close> derive from
  \<^verbatim>\<open>BaseException\<close> directly; every other class of the model derives from \<^verbatim>\<open>Exception\<close>.
\<close>

fun is_Exception :: "exn_class \<Rightarrow> bool" where
  "is_Exception SystemExit = False"
| "is_Exception KeyboardInterrupt = False"
| "is_Exception GeneratorExit = False"
| "is_Exception CancelledError = False"
| "is_Exception c = True"

text \<open>An exception object: its class and what \<^verbatim>\<open>str(e)\<close> gives.\<close>

datatype exn = Exn exn_class string

fun exn_str :: "exn \<Rightarrow> string" where
  "exn_str (Exn c m) = m"

fun exn_class_of :: "exn \<Rightarrow> exn_class" where
  "exn_class_of (Exn c m) = c"

text \<open>\<^verbatim>\<open>except Exception as e\<close> catches \<open>e\<close>.\<close>

definition caught :: "exn \<Rightarrow> bool" where
  "caught e = is_Exception (exn_class_of e)"

text \<open>
  The name of a class. \<open>PlainException\<close> is \<^verbatim>\<open>Exception\<close> itself, as
  \<^verbatim>\<open>raise Exception(msg)\<close> makes it; \<open>ExternalFault\<close> stands for whatever else of class
  \<^verbatim>\<open>Exception\<close> a library function or a collaborator raises.
\<close>

fun class_name :: "exn_class \<Rightarrow> string" where
  "class_name KeyError = ''KeyError''"
| "class_name TypeError = ''TypeError''"
| "class_name AttributeError = ''AttributeError''"
| "class_name ValueError = ''ValueError''"
| "class_name NameError = ''NameError''"
| "class_name IndexError = ''IndexError''"
| "class_name OverflowError = ''OverflowError''"
| "class_name RecursionError = ''RecursionError''"
| "class_name PlainException = ''Exception''"
| "class_name ExternalFault = ''Exception''"
| "class_name SystemExit = ''SystemExit''"
| "class_name KeyboardInterrupt = ''KeyboardInterrupt''"
| "class_name GeneratorExit = ''GeneratorExit''"
| "class_name CancelledError = ''CancelledError''"

datatype pyval =
  PNone
| PBool bool
| PInt int
| PFloat real
| PStr string
| PList "pyval list"
| PDict "(string \<times> pyval) list"
| PExc exn

type_synonym pydict = "(string \<times> pyval) list"

text \<open>
  What the engine asks of Python's library and of its two external collaborators, taken as
  parameters: rendering (\<^verbatim>\<open>str\<close>, \<^verbatim>\<open>repr\<close>), \<^verbatim>\<open>json.dumps\<close>, \<^verbatim>\<open>json.loads\<close>,
  \<^verbatim>\<open>template.format(value=v)\<close>, \<^verbatim>\<open>eval(expr, {"__builtins__": {}}, scope)\<close>, the agent call
  \<^verbatim>\<open>context.communicate(UserMessage(..)).result()\<close>, the tool call
  \<^verbatim>\<open>agent.get_tool(..).execute(**args).message\<close>, the readings of \<^verbatim>\<open>time.time()\<close>
  (the \<open>k\<close>-th call of a run of the program reads \<open>clock k\<close>), the subtraction of two
  floats, which rounds, and the message of the \<^verbatim>\<open>RecursionError\<close> the interpreter raises
  when the calls of the named function nest beyond its limit (the message depends on
  the call at which the limit is reached). Each of them returns, a value or a fault, and
  is a function of its arguments: an evaluated expression that would change the
  variables it is given, or a collaborator that would never answer, is outside the
  model. A fault may be of any class: an evaluated expression or a collaborator can raise
  \<^verbatim>\<open>SystemExit\<close> as well as \<^verbatim>\<open>NameError\<close>.
\<close>

record 'c env =
  py_str :: "pyval \<Rightarrow> string"
  py_repr :: "pyval \<Rightarrow> string"
  json_dumps :: "pyval \<Rightarrow> exn + string"
  json_loads :: "string \<Rightarrow> exn + pyval"
  str_format :: "string \<Rightarrow> pyval \<Rightarrow> exn + string"
  py_eval :: "pyval \<Rightarrow> pydict \<Rightarrow> exn + pyval"
  agent_call :: "'c \<Rightarrow> string \<Rightarrow> exn + pyval"
  tool_call :: "'c \<Rightarrow> pyval \<Rightarrow> (pyval \<times> pyval) list \<Rightarrow> exn + pyval"
  clock :: "nat \<Rightarrow> real"
  float_sub :: "real \<Rightarrow> real \<Rightarrow> real"
  recursion_text :: "string \<Rightarrow> string"

definition quote :: "string \<Rightarrow> string" where
  "quote s = CHR 0x27 # s @ [CHR 0x27]"

fun type_name :: "pyval \<Rightarrow> string" where
  "type_name PNone = ''NoneType''"
| "type_name (PBool b) = ''bool''"
| "type_name (PInt i) = ''int''"
| "type_name (PFloat r) = ''float''"
| "type_name (PStr s) = ''str''"
| "type_name (PList xs) = ''list''"
| "type_name (PDict kvs) = ''dict''"
| "type_name (PExc e) = class_name (exn_class_of e)"

text \<open>Truthiness, as \<^verbatim>\<open>not v\<close>, \<^verbatim>\<open>bool(v)\<close> and \<^verbatim>\<open>a and b\<close> read it.\<close>

fun py_truthy :: "pyval \<Rightarrow> bool" where
  "py_truthy PNone = False"
| "py_truthy (PBool b) = b"
| "py_truthy (PInt i) = (i \<noteq> 0)"
| "py_truthy (PFloat r) = (r \<noteq> 0)"
| "py_truthy (PStr s) = (s \<noteq> [])"
| "py_truthy (PList xs) = (xs \<noteq> [])"
| "py_truthy (PDict kvs) = (kvs \<noteq> [])"
| "py_truthy (PExc e) = True"

text \<open>
  \<^verbatim>\<open>a == b\<close> where one side is a hashable scalar (every comparison of the engine is of
  that kind): numbers compare by value across \<^verbatim>\<open>bool\<close>, \<^verbatim>\<open>int\<close> and \<^verbatim>\<open>float\<close>.
\<close>

fun py_num :: "pyval \<Rightarrow> real option" where
  "py_num (PBool b) = Some (if b then 1 else 0)"
| "py_num (PInt i) = Some (of_int i)"
| "py_num (PFloat r) = Some r"
| "py_num v = None"

definition py_eq :: "pyval \<Rightarrow> pyval \<Rightarrow> bool" where
  "py_eq a b =
     (case py_num a of
        Some x \<Rightarrow> (case py_num b of Some y \<Rightarrow> x = y | None \<Rightarrow> False)
      | None \<Rightarrow> (case py_num b of Some y \<Rightarrow> False | None \<Rightarrow> a = b))"

fun hashable :: "pyval \<Rightarrow> bool" where
  "hashable (PList xs) = False"
| "hashable (PDict kvs) = False"
| "hashable v = True"

definition unhashable :: "pyval \<Rightarrow> exn" where
  "unhashable v = Exn TypeError (''unhashable type: '' @ quote (type_name v))"

text \<open>\<^verbatim>\<open>d.get(k, default)\<close>: an attribute of dicts only.\<close>

fun py_get :: "pyval \<Rightarrow> string \<Rightarrow> pyval \<Rightarrow> exn + pyval" where
  "py_get (PDict kvs) k d = Inr (case map_of kvs k of Some v \<Rightarrow> v | None \<Rightarrow> d)"
| "py_get v k d =
     Inl (Exn AttributeError (quote (type_name v) @ '' object has no attribute '' @ quote ''get''))"

text \<open>\<^verbatim>\<open>d[k]\<close> with a string key \<open>k\<close>.\<close>

fun py_index :: "pyval \<Rightarrow> string \<Rightarrow> exn + pyval" where
  "py_index (PDict kvs) k =
     (case map_of kvs k of Some v \<Rightarrow> Inr v | None \<Rightarrow> Inl (Exn KeyError (quote k)))"
| "py_index (PStr s) k =
     Inl (Exn TypeError (''string indices must be integers, not '' @ quote ''str''))"
| "py_index (PList xs) k =
     Inl (Exn TypeError ''list indices must be integers or slices, not str'')"
| "py_index v k =
     Inl (Exn TypeError (quote (type_name v) @ '' object is not subscriptable''))"

text \<open>\<^verbatim>\<open>for x in v\<close>: a list gives its elements, a dict its keys, a string its characters.\<close>

fun py_iter :: "pyval \<Rightarrow> exn + pyval list" where
  "py_iter (PList xs) = Inr xs"
| "py_iter (PDict kvs) = Inr (map (\<lambda>kv. PStr (fst kv)) kvs)"
| "py_iter (PStr s) = Inr (map (\<lambda>c. PStr [c]) s)"
| "py_iter v = Inl (Exn TypeError (quote (type_name v) @ '' object is not iterable''))"

text \<open>\<^verbatim>\<open>d[k] = v\<close> on a dict with string keys: an existing key keeps its place.\<close>

definition dict_set :: "pydict \<Rightarrow> string \<Rightarrow> pyval \<Rightarrow> pydict" where
  "dict_set d k v = AList.update k v d"

text \<open>Dicts and sets keyed by arbitrary hashable values (node ids), compared with \<open>py_eq\<close>.\<close>

fun kv_get :: "(pyval \<times> 'a) list \<Rightarrow> pyval \<Rightarrow> 'a option" where
  "kv_get [] k = None"
| "kv_get (p # ps) k = (if py_eq (fst p) k then Some (snd p) else kv_get ps k)"

fun kv_set :: "(pyval \<times> 'a) list \<Rightarrow> pyval \<Rightarrow> 'a \<Rightarrow> (pyval \<times> 'a) list" where
  "kv_set [] k v = [(k, v)]"
| "kv_set (p # ps) k v = (if py_eq (fst p) k then (fst p, v) # ps else p # kv_set ps k v)"

definition set_has :: "pyval list \<Rightarrow> pyval \<Rightarrow> bool" where
  "set_has xs k = list_ex (\<lambda>x. py_eq x k) xs"

definition set_add :: "pyval list \<Rightarrow> pyval \<Rightarrow> pyval list" where
  "set_add xs k = (if set_has xs k then xs else xs @ [k])"

definition set_remove :: "pyval list \<Rightarrow> pyval \<Rightarrow> pyval list" where
  "set_remove xs k = filter (\<lambda>x. \<not> py_eq x k) xs"

subsection \<open>Strings\<close>

text \<open>\<^verbatim>\<open>str(n)\<close> of an integer: its decimal digits, with a sign.\<close>

definition digit_char :: "nat \<Rightarrow> char" where
  "digit_char d = char_of (48 + d)"

fun str_nat :: "nat \<Rightarrow> string" where
  "str_nat n = (if n < 10 then [digit_char n] else str_nat (n div 10) @ [digit_char (n mod 10)])"

declare str_nat.simps [simp del]

definition str_int :: "int \<Rightarrow> string" where
  "str_int i = (if i < 0 then CHR ''-'' # str_nat (nat (- i)) else str_nat (nat i))"

text \<open>\<^verbatim>\<open>int(x)\<close> of a float truncates towards zero.\<close>

definition py_int :: "real \<Rightarrow> int" where
  "py_int r = (if 0 \<le> r then \<lfloor>r\<rfloor> else \<lceil>r\<rceil>)"

definition startswith :: "string \<Rightarrow> string \<Rightarrow> bool" where
  "startswith s p = (take (length p) s = p)"

text \<open>\<^verbatim>\<open>s.split(c)\<close> for a one-character separator.\<close>

fun py_split :: "char \<Rightarrow> string \<Rightarrow> string list" where
  "py_split c [] = [[]]"
| "py_split c (x # xs) =
     (if x = c then [] # py_split c xs
      else (case py_split c xs of [] \<Rightarrow> [[x]] | w # ws \<Rightarrow> (x # w) # ws))"

text \<open>\<^verbatim>\<open>sep.join(xs)\<close>.\<close>

fun py_join :: "string \<Rightarrow> string list \<Rightarrow> string" where
  "py_join sep [] = []"
| "py_join sep [x] = x"
| "py_join sep (x # y # ys) = x @ sep @ py_join sep (y # ys)"

text \<open>
  \<^verbatim>\<open>s.strip()\<close>: the characters \<^verbatim>\<open>str.isspace\<close> accepts, among the code points below
  256, are removed at both ends.
\<close>

definition is_space :: "char \<Rightarrow> bool" where
  "is_space c =
     (let n = of_char c :: nat
      in (9 \<le> n \<and> n \<le> 13) \<or> (28 \<le> n \<and> n \<le> 32) \<or> n = 133 \<or> n = 160)"

definition py_strip :: "string \<Rightarrow> string" where
  "py_strip s = rev (dropWhile is_space (rev (dropWhile is_space s)))"

text \<open>\<^verbatim>\<open>needle in hay\<close> on strings: a contiguous occurrence.\<close>

fun str_contains :: "string \<Rightarrow> string \<Rightarrow> bool" where
  "str_contains [] needle = (needle = [])"
| "str_contains (h # hs) needle = (startswith (h # hs) needle \<or> str_contains hs needle)"

section \<open>The data model\<close>

datatype NodeType = INPUT | AGENT | TOOL | CONDITION | OUTPUT | LOOP | PARALLEL | MERGE

fun type_value :: "NodeType \<Rightarrow> string" where
  "type_value INPUT = ''input''"
| "type_value AGENT = ''agent''"
| "type_value TOOL = ''tool''"
| "type_value CONDITION = ''condition''"
| "type_value OUTPUT = ''output''"
| "type_value LOOP = ''loop''"
| "type_value PARALLEL = ''parallel''"
| "type_value MERGE = ''merge''"

text \<open>\<^verbatim>\<open>NodeType(v)\<close>: the member whose value is \<open>v\<close>, else \<^verbatim>\<open>ValueError\<close>.\<close>

definition NodeType_of :: "'c env \<Rightarrow> pyval \<Rightarrow> exn + NodeType" where
  "NodeType_of env v =
     (if v = PStr ''input'' then Inr INPUT
      else if v = PStr ''agent'' then Inr AGENT
      else if v = PStr ''tool'' then Inr TOOL
      else if v = PStr ''condition'' then Inr CONDITION
      else if v = PStr ''output'' then Inr OUTPUT
      else if v = PStr ''loop'' then Inr LOOP
      else if v = PStr ''parallel'' then Inr PARALLEL
      else if v = PStr ''merge'' then Inr MERGE
      else Inl (Exn ValueError (py_repr env v @ '' is not a valid NodeType'')))"

text \<open>
  The dataclasses. A field keeps the source's name unless the name is taken: \<^verbatim>\<open>id\<close>,
  \<^verbatim>\<open>type\<close>, \<^verbatim>\<open>x\<close> and \<^verbatim>\<open>y\<close> carry the class as a prefix. The dataclasses do not check
  their annotations, so a field holds whatever the payload gave.
\<close>

record WorkflowNode =
  node_id :: pyval
  node_type :: NodeType
  config :: pyval
  data :: pyval
  node_x :: pyval
  node_y :: pyval

record WorkflowConnection =
  conn_id :: pyval
  from_node :: pyval
  from_output :: pyval
  to_node :: pyval
  to_input :: pyval

record WorkflowExecution =
  exec_id :: string
  status :: string
  current_node :: "pyval option"
  variables :: pydict
  execution_log :: "pyval list"
  start_time :: real
  end_time :: "real option"

text \<open>
  What a run mutates: its Execution Record, and the number of \<^verbatim>\<open>time.time()\<close> calls made
  so far.
\<close>

record run =
  exe :: WorkflowExecution
  ticks :: nat

text \<open>\<^verbatim>\<open>time.time()\<close>: the next reading of the clock.\<close>

definition clock_read :: "'c env \<Rightarrow> nat \<Rightarrow> real \<times> nat" where
  "clock_read env k = (clock env k, Suc k)"

definition time_time :: "'c env \<Rightarrow> run \<Rightarrow> real \<times> run" where
  "time_time env s = (case clock_read env (ticks s) of (t, k) \<Rightarrow> (t, s\<lparr>ticks := k\<rparr>))"

definition log_append :: "pyval \<Rightarrow> run \<Rightarrow> run" where
  "log_append entry s = s\<lparr>exe := (exe s)\<lparr>execution_log := execution_log (exe s) @ [entry]\<rparr>\<rparr>"

text \<open>
  The names the module binds at its top level: its imports, classes, the global engine
  slot and the three module functions. \<^verbatim>\<open>execute_workflow\<close> and
  \<^verbatim>\<open>_execute_single_node\<close> run \<^verbatim>\<open>import time\<close> in their own bodies, which binds \<^verbatim>\<open>time\<close>
  as a local of that function only; every other function that writes \<^verbatim>\<open>time.time()\<close>
  looks \<^verbatim>\<open>time\<close> up among these names (and the builtins, where it is not either).
\<close>

definition module_names :: "string list" where
  "module_names =
     [''asyncio'', ''json'', ''Dict'', ''Any'', ''List'', ''Optional'', ''dataclass'', ''Enum'',
      ''Agent'', ''AgentContext'', ''UserMessage'', ''NodeType'', ''WorkflowNode'',
      ''WorkflowConnection'', ''WorkflowExecution'', ''WorkflowEngine'', ''_workflow_engine'',
      ''get_workflow_engine'', ''execute_workflow'', ''validate_workflow'']"

definition global_name :: "string \<Rightarrow> exn + unit" where
  "global_name n =
     (if n \<in> set module_names then Inr ()
      else Inl (Exn NameError (''name '' @ quote n @ '' is not defined'')))"

text \<open>\<^verbatim>\<open>time.time()\<close> where \<^verbatim>\<open>time\<close> is a global name of the module.\<close>

definition global_clock_read :: "'c env \<Rightarrow> nat \<Rightarrow> (exn + real) \<times> nat" where
  "global_clock_read env k =
     (case global_name ''time'' of
        Inl e \<Rightarrow> (Inl e, k)
      | Inr u \<Rightarrow> (case clock_read env k of (t, k') \<Rightarrow> (Inr t, k')))"

definition global_time_time :: "'c env \<Rightarrow> run \<Rightarrow> (exn + real) \<times> run" where
  "global_time_time env s =
     (case global_clock_read env (ticks s) of (r, k) \<Rightarrow> (r, s\<lparr>ticks := k\<rparr>))"

section \<open>Node handlers\<close>

text \<open>The \<^verbatim>\<open>input_*\<close> values of the inputs dict, in its order.\<close>

definition input_values :: "pydict \<Rightarrow> pyval list" where
  "input_values inputs = map snd (filter (\<lambda>kv. startswith (fst kv) ''input_'') inputs)"

definition inputs_get :: "pydict \<Rightarrow> string \<Rightarrow> pyval \<Rightarrow> pyval" where
  "inputs_get inputs k d = (case map_of inputs k of Some v \<Rightarrow> v | None \<Rightarrow> d)"

definition execute_input_node ::
  "'c env \<Rightarrow> 'c \<Rightarrow> WorkflowNode \<Rightarrow> pydict \<Rightarrow> run \<Rightarrow> (exn + pyval) \<times> run" where
  "execute_input_node env ctx node inputs s =
     (case map_of (variables (exe s)) ''input'' of
        Some v \<Rightarrow> (Inr v, s)
      | None \<Rightarrow> (py_get (data node) ''default_value'' (PStr []), s))"

definition execute_agent_node ::
  "'c env \<Rightarrow> 'c \<Rightarrow> WorkflowNode \<Rightarrow> pydict \<Rightarrow> run \<Rightarrow> (exn + pyval) \<times> run" where
  "execute_agent_node env ctx node inputs s =
     (let input_text = inputs_get inputs ''input_0'' (PStr []) in
      case (case input_text of
              PDict d \<Rightarrow> json_dumps env input_text
            | PStr t \<Rightarrow> Inr t
            | v \<Rightarrow> Inr (py_str env v)) of
        Inl e \<Rightarrow> (Inl e, s)
      | Inr text \<Rightarrow>
          (case py_get (data node) ''instructions'' (PStr []) of
             Inl e \<Rightarrow> (Inl e, s)
           | Inr ins \<Rightarrow>
               (agent_call env ctx
                  (py_strip (py_str env ins @ [CHR 0x0A, CHR 0x0A] @ text)), s)))"

text \<open>The loop of the tool handler over \<^verbatim>\<open>inputs.items()\<close>.\<close>

fun tool_merge_inputs ::
  "WorkflowNode \<Rightarrow> pydict \<Rightarrow> (pyval \<times> pyval) list \<Rightarrow> exn + (pyval \<times> pyval) list" where
  "tool_merge_inputs node [] combined = Inr combined"
| "tool_merge_inputs node (kv # rest) combined =
     (if startswith (fst kv) ''input_'' then
        (case py_split CHR ''_'' (fst kv) of
           a # index # tail_parts \<Rightarrow>
             (case py_get (data node) (''input_param_'' @ index) (PStr ''query'') of
                Inl e \<Rightarrow> Inl e
              | Inr param_name \<Rightarrow>
                  if hashable param_name
                  then tool_merge_inputs node rest (kv_set combined param_name (snd kv))
                  else Inl (unhashable param_name))
         | short \<Rightarrow> Inl (Exn IndexError ''list index out of range''))
      else tool_merge_inputs node rest combined)"

definition execute_tool_node ::
  "'c env \<Rightarrow> 'c \<Rightarrow> WorkflowNode \<Rightarrow> pydict \<Rightarrow> run \<Rightarrow> (exn + pyval) \<times> run" where
  "execute_tool_node env ctx node inputs s =
     (case py_get (data node) ''tool_name'' (PStr ''knowledge_tool'') of
        Inl e \<Rightarrow> (Inl e, s)
      | Inr tool_name \<Rightarrow>
          (case py_get (data node) ''tool_args'' (PDict []) of
             Inl e \<Rightarrow> (Inl e, s)
           | Inr tool_args \<Rightarrow>
               (case tool_args of
                  PDict kvs \<Rightarrow>
                    (case tool_merge_inputs node inputs (map (\<lambda>kv. (PStr (fst kv), snd kv)) kvs) of
                       Inl e \<Rightarrow> (Inl e, s)
                     | Inr combined_args \<Rightarrow> (tool_call env ctx tool_name combined_args, s))
                | v \<Rightarrow> (Inl (Exn TypeError (quote (type_name v) @ '' object is not a mapping'')), s))))"

definition execute_condition_node ::
  "'c env \<Rightarrow> 'c \<Rightarrow> WorkflowNode \<Rightarrow> pydict \<Rightarrow> run \<Rightarrow> (exn + pyval) \<times> run" where
  "execute_condition_node env ctx node inputs s =
     (case py_get (data node) ''condition'' (PStr ''True'') of
        Inl e \<Rightarrow> (Inl e, s)
      | Inr condition \<Rightarrow>
          (let input_value = inputs_get inputs ''input_0'' (PBool True);
               eval_context =
                 foldl (\<lambda>d kv. dict_set d (fst kv) (snd kv))
                   [(''input'', input_value), (''variables'', PDict (variables (exe s)))] inputs
           in case py_eval env condition eval_context of
                Inr r \<Rightarrow>
                  (Inr (PDict [(''condition_result'', PBool (py_truthy r)), (''value'', input_value)]), s)
              | Inl e \<Rightarrow>
                  if \<not> caught e then (Inl e, s)
                  else
                    (case global_time_time env s of
                       (Inl e', s') \<Rightarrow> (Inl e', s')
                     | (Inr t, s') \<Rightarrow>
                         (Inr (PDict [(''condition_result'', PBool True), (''value'', input_value)]),
                          log_append
                            (PDict [(''timestamp'', PFloat t), (''level'', PStr ''warning''),
                                    (''message'', PStr (''Condition evaluation failed: '' @ exn_str e
                                                       @ '', defaulting to True'')),
                                    (''node_id'', node_id node)]) s'))))"

text \<open>
  The \<^verbatim>\<open>except Exception\<close> of the condition handler catches the faults of class
  \<^verbatim>\<open>Exception\<close> only; the bare \<^verbatim>\<open>except:\<close> of the output handler's \<^verbatim>\<open>json\<close> branch
  catches a fault of any class.
\<close>

definition execute_output_node ::
  "'c env \<Rightarrow> 'c \<Rightarrow> WorkflowNode \<Rightarrow> pydict \<Rightarrow> run \<Rightarrow> (exn + pyval) \<times> run" where
  "execute_output_node env ctx node inputs s =
     (case py_get (data node) ''format'' (PStr ''raw'') of
        Inl e \<Rightarrow> (Inl e, s)
      | Inr output_format \<Rightarrow>
          (let input_value = inputs_get inputs ''input_0'' (PStr []) in
           if py_eq output_format (PStr ''json'') then
             (case input_value of
                PStr t \<Rightarrow>
                  (case json_loads env t of
                     Inr v \<Rightarrow> (Inr v, s)
                   | Inl e \<Rightarrow> (Inr (PDict [(''output'', input_value)]), s))
              | v \<Rightarrow> (Inr input_value, s))
           else if py_eq output_format (PStr ''formatted'') then
             (case py_get (data node) ''template'' (PStr ''{value}'') of
                Inl e \<Rightarrow> (Inl e, s)
              | Inr template \<Rightarrow>
                  (case template of
                     PStr t \<Rightarrow>
                       (case str_format env t input_value of
                          Inl e \<Rightarrow> (Inl e, s)
                        | Inr r \<Rightarrow> (Inr (PStr r), s))
                   | v \<Rightarrow>
                       (Inl (Exn AttributeError
                          (quote (type_name v) @ '' object has no attribute '' @ quote ''format'')), s)))
           else (Inr input_value, s)))"

text \<open>\<^verbatim>\<open>range(n)\<close>: an \<^verbatim>\<open>int\<close> or a \<^verbatim>\<open>bool\<close>.\<close>

fun py_range :: "pyval \<Rightarrow> exn + int list" where
  "py_range (PInt n) = Inr (map int [0..<nat n])"
| "py_range (PBool b) = Inr (if b then [0] else [])"
| "py_range v =
     Inl (Exn TypeError (quote (type_name v) @ '' object cannot be interpreted as an integer''))"

definition execute_loop_node ::
  "'c env \<Rightarrow> 'c \<Rightarrow> WorkflowNode \<Rightarrow> pydict \<Rightarrow> run \<Rightarrow> (exn + pyval) \<times> run" where
  "execute_loop_node env ctx node inputs s =
     (case py_get (data node) ''iterations'' (PInt 1) of
        Inl e \<Rightarrow> (Inl e, s)
      | Inr iterations \<Rightarrow>
          (let input_value = inputs_get inputs ''input_0'' (PStr []) in
           case py_range iterations of
             Inl e \<Rightarrow> (Inl e, s)
           | Inr is \<Rightarrow>
               (Inr (PList (map (\<lambda>i. PDict [(''iteration'', PInt i), (''input'', input_value),
                                              (''result'', input_value)]) is)),
                s\<lparr>exe := (exe s)\<lparr>variables :=
                     foldl (\<lambda>vars i.
                              dict_set
                                (dict_set vars (''loop_'' @ py_str env (node_id node) @ ''_iteration'') (PInt i))
                                (''loop_'' @ py_str env (node_id node) @ ''_input'') input_value)
                       (variables (exe s)) is\<rparr>\<rparr>)))"

text \<open>
  \<^verbatim>\<open>asyncio.sleep(delay)\<close> compares its delay with \<^verbatim>\<open>0\<close>, which raises \<^verbatim>\<open>TypeError\<close>
  unless the delay is a number, and adds a positive delay to the loop's time, a float:
  an \<^verbatim>\<open>int\<close> that rounds to no finite float (one from \<open>2 ^ 1024 - 2 ^ 970\<close> on) raises
  \<^verbatim>\<open>OverflowError\<close> there.
\<close>

definition asyncio_sleep :: "pyval \<Rightarrow> exn + unit" where
  "asyncio_sleep delay =
     (case py_num delay of
        Some d \<Rightarrow>
          (case delay of
             PInt n \<Rightarrow>
               if 2 ^ 1024 - 2 ^ 970 \<le> n
               then Inl (Exn OverflowError ''int too large to convert to float'')
               else Inr ()
           | other \<Rightarrow> Inr ())
      | None \<Rightarrow>
          Inl (Exn TypeError
            (quote ''<='' @ '' not supported between instances of '' @ quote (type_name delay)
             @ '' and '' @ quote ''int'')))"

definition process_parallel_input ::
  "'c env \<Rightarrow> WorkflowNode \<Rightarrow> pyval \<Rightarrow> nat \<Rightarrow> run \<Rightarrow> (exn + pyval) \<times> run" where
  "process_parallel_input env node input_value index s =
     (case py_get (data node) ''processing_time'' (PFloat 1) of
        Inl e \<Rightarrow> (Inl e, s)
      | Inr processing_time \<Rightarrow>
          (case asyncio_sleep processing_time of
             Inl e \<Rightarrow> (Inl e, s)
           | Inr u \<Rightarrow>
               (case global_time_time env s of
                  (Inl e, s') \<Rightarrow> (Inl e, s')
                | (Inr t, s') \<Rightarrow>
                    (Inr (PDict [(''index'', PInt (int index)), (''input'', input_value),
                                 (''processed'', PStr (''Processed: '' @ py_str env input_value)),
                                 (''timestamp'', PFloat t)]), s'))))"

text \<open>
  The tasks of the parallel handler and their join, \<^verbatim>\<open>asyncio.gather(*tasks,
  return_exceptions=True)\<close>: one entry per task in the order of the tasks, a task's
  exception standing as its entry. The units share nothing but the clock; they are run
  here in the order they were created. A unit calls no collaborator: what it raises is
  the \<^verbatim>\<open>AttributeError\<close> of \<^verbatim>\<open>.get\<close>, a fault of \<^verbatim>\<open>asyncio.sleep\<close> or the
  \<^verbatim>\<open>NameError\<close> of \<^verbatim>\<open>time\<close>, all of class \<^verbatim>\<open>Exception\<close>.
\<close>

fun gather_units ::
  "'c env \<Rightarrow> WorkflowNode \<Rightarrow> nat \<Rightarrow> pyval list \<Rightarrow> run \<Rightarrow> pyval list \<times> run" where
  "gather_units env node i [] s = ([], s)"
| "gather_units env node i (v # vs) s =
     (case process_parallel_input env node v i s of
        (r, s') \<Rightarrow>
          (case gather_units env node (Suc i) vs s' of
             (rs, s'') \<Rightarrow> ((case r of Inl e \<Rightarrow> PExc e | Inr x \<Rightarrow> x) # rs, s'')))"

definition execute_parallel_node ::
  "'c env \<Rightarrow> 'c \<Rightarrow> WorkflowNode \<Rightarrow> pydict \<Rightarrow> run \<Rightarrow> (exn + pyval) \<times> run" where
  "execute_parallel_node env ctx node inputs s =
     (let parallel_inputs = input_values inputs in
      if parallel_inputs = [] then (Inr (PList []), s)
      else (case gather_units env node 0 parallel_inputs s of
              (rs, s') \<Rightarrow> (Inr (PList rs), s')))"

definition execute_merge_node ::
  "'c env \<Rightarrow> 'c \<Rightarrow> WorkflowNode \<Rightarrow> pydict \<Rightarrow> run \<Rightarrow> (exn + pyval) \<times> run" where
  "execute_merge_node env ctx node inputs s =
     (case py_get (data node) ''strategy'' (PStr ''concatenate'') of
        Inl e \<Rightarrow> (Inl e, s)
      | Inr merge_strategy \<Rightarrow>
          (let vs = input_values inputs in
           if py_eq merge_strategy (PStr ''concatenate'')
           then (Inr (PStr (py_join '' '' (map (py_str env) vs))), s)
           else if py_eq merge_strategy (PStr ''array'') then (Inr (PList vs), s)
           else if py_eq merge_strategy (PStr ''json'')
           then (Inr (PDict (foldl (\<lambda>d iv. dict_set d (''input_'' @ str_nat (fst iv)) (snd iv)) []
                               (zip [0..<length vs] vs))), s)
           else (Inr (case vs of [] \<Rightarrow> PNone | v # rest \<Rightarrow> v), s)))"

section \<open>The executor\<close>

text \<open>The dispatch table \<^verbatim>\<open>self.node_handlers\<close>, built once by the constructor.\<close>

definition node_handlers ::
  "NodeType \<Rightarrow> ('c env \<Rightarrow> 'c \<Rightarrow> WorkflowNode \<Rightarrow> pydict \<Rightarrow> run \<Rightarrow> (exn + pyval) \<times> run) option" where
  "node_handlers t =
     (case t of
        INPUT \<Rightarrow> Some execute_input_node
      | AGENT \<Rightarrow> Some execute_agent_node
      | TOOL \<Rightarrow> Some execute_tool_node
      | CONDITION \<Rightarrow> Some execute_condition_node
      | OUTPUT \<Rightarrow> Some execute_output_node
      | LOOP \<Rightarrow> Some execute_loop_node
      | PARALLEL \<Rightarrow> Some execute_parallel_node
      | MERGE \<Rightarrow> Some execute_merge_node)"

text \<open>\<^verbatim>\<open>str(node.type)\<close> of an enum member.\<close>

fun member_str :: "NodeType \<Rightarrow> string" where
  "member_str INPUT = ''NodeType.INPUT''"
| "member_str AGENT = ''NodeType.AGENT''"
| "member_str TOOL = ''NodeType.TOOL''"
| "member_str CONDITION = ''NodeType.CONDITION''"
| "member_str OUTPUT = ''NodeType.OUTPUT''"
| "member_str LOOP = ''NodeType.LOOP''"
| "member_str PARALLEL = ''NodeType.PARALLEL''"
| "member_str MERGE = ''NodeType.MERGE''"

definition execute_single_node ::
  "'c env \<Rightarrow> 'c \<Rightarrow> WorkflowNode \<Rightarrow> pydict \<Rightarrow> run \<Rightarrow> (exn + pyval) \<times> run" where
  "execute_single_node env ctx node inputs s =
     (case time_time env s of
        (t, s1) \<Rightarrow>
          (let s2 = log_append
                 (PDict [(''timestamp'', PFloat t), (''level'', PStr ''info''),
                         (''message'', PStr (''Executing node '' @ py_str env (node_id node) @ '' (''
                                            @ type_value (node_type node) @ '')'')),
                         (''node_id'', node_id node)]) s1
           in case node_handlers (node_type node) of
                None \<Rightarrow>
                  (Inl (Exn PlainException
                     (''No handler for node type: '' @ member_str (node_type node))), s2)
              | Some handler \<Rightarrow>
                  (case handler env ctx node inputs s2 of
                     (Inr r, s3) \<Rightarrow>
                       (case time_time env s3 of
                          (t', s4) \<Rightarrow>
                            (Inr r,
                             log_append
                               (PDict [(''timestamp'', PFloat t'), (''level'', PStr ''success''),
                                       (''message'', PStr (''Node '' @ py_str env (node_id node)
                                                          @ '' completed successfully'')),
                                       (''node_id'', node_id node),
                                       (''result'', PStr (take 200 (py_str env r)))]) s4))
                   | (Inl e, s3) \<Rightarrow>
                       if \<not> caught e then (Inl e, s3)
                       else
                         (case time_time env s3 of
                            (t', s4) \<Rightarrow>
                              (Inl e,
                               log_append
                                 (PDict [(''timestamp'', PFloat t'), (''level'', PStr ''error''),
                                         (''message'', PStr (''Node '' @ py_str env (node_id node)
                                                            @ '' failed: '' @ exn_str e)),
                                         (''node_id'', node_id node)]) s4)))))"

text \<open>
  The locals of \<^verbatim>\<open>_execute_workflow_graph\<close> its inner function \<^verbatim>\<open>execute_node\<close> closes
  over and mutates: \<^verbatim>\<open>visited\<close> and \<^verbatim>\<open>results\<close>, next to the run.
\<close>

record walk =
  wrun :: run
  visited :: "pyval list"
  results :: "(pyval \<times> pyval) list"

text \<open>
  \<^verbatim>\<open>execute_node\<close> calls itself on the source node of every incoming connection. The
  first argument after the graph is the number of nested calls the interpreter still
  allows (its recursion limit): a call beyond it raises \<^verbatim>\<open>RecursionError\<close>.
  \<open>execute_prerequisites\<close> is the \<^verbatim>\<open>for prereq in prerequisites\<close> loop.
\<close>

fun execute_node ::
  "'c env \<Rightarrow> 'c \<Rightarrow> WorkflowConnection list \<Rightarrow> (pyval \<times> WorkflowNode) list \<Rightarrow> nat \<Rightarrow>
   WorkflowNode \<Rightarrow> walk \<Rightarrow> (exn + pyval) \<times> walk"
and execute_prerequisites ::
  "'c env \<Rightarrow> 'c \<Rightarrow> WorkflowConnection list \<Rightarrow> (pyval \<times> WorkflowNode) list \<Rightarrow> nat \<Rightarrow>
   WorkflowConnection list \<Rightarrow> pydict \<Rightarrow> walk \<Rightarrow> (exn + pydict) \<times> walk"
where
  "execute_node env ctx connections node_map 0 node w =
     (Inl (Exn RecursionError (recursion_text env ''execute_node'')), w)"
| "execute_node env ctx connections node_map (Suc depth) node w =
     (if set_has (visited w) (node_id node)
      then (Inr (case kv_get (results w) (node_id node) of Some r \<Rightarrow> r | None \<Rightarrow> PNone), w)
      else
        (case execute_prerequisites env ctx connections node_map depth
                (filter (\<lambda>conn. py_eq (to_node conn) (node_id node)) connections) [] w of
           (Inl e, w1) \<Rightarrow> (Inl e, w1)
         | (Inr prerequisite_results, w1) \<Rightarrow>
             (case execute_single_node env ctx node prerequisite_results
                     ((wrun w1)\<lparr>exe := (exe (wrun w1))\<lparr>current_node := Some (node_id node)\<rparr>\<rparr>) of
                (Inl e, s) \<Rightarrow> (Inl e, w1\<lparr>wrun := s\<rparr>)
              | (Inr node_result, s) \<Rightarrow>
                  (Inr node_result,
                   w1\<lparr>wrun := s,
                      visited := set_add (visited w1) (node_id node),
                      results := kv_set (results w1) (node_id node) node_result\<rparr>))))"
| "execute_prerequisites env ctx connections node_map depth [] acc w = (Inr acc, w)"
| "execute_prerequisites env ctx connections node_map depth (prereq # rest) acc w =
     (if \<not> hashable (from_node prereq) then (Inl (unhashable (from_node prereq)), w)
      else
        (case kv_get node_map (from_node prereq) of
           None \<Rightarrow> (Inl (Exn KeyError (py_repr env (from_node prereq))), w)
         | Some prereq_node \<Rightarrow>
             (case execute_node env ctx connections node_map depth prereq_node w of
                (Inl e, w1) \<Rightarrow> (Inl e, w1)
              | (Inr prereq_result, w1) \<Rightarrow>
                  execute_prerequisites env ctx connections node_map depth rest
                    (dict_set acc (''input_'' @ py_str env (to_input prereq)) prereq_result) w1)))"

text \<open>\<^verbatim>\<open>{node.id: node for node in nodes}\<close>: a key must be hashable.\<close>

fun build_node_map ::
  "WorkflowNode list \<Rightarrow> (pyval \<times> WorkflowNode) list \<Rightarrow> exn + (pyval \<times> WorkflowNode) list" where
  "build_node_map [] m = Inr m"
| "build_node_map (node # rest) m =
     (if hashable (node_id node) then build_node_map rest (kv_set m (node_id node) node)
      else Inl (unhashable (node_id node)))"

fun build_connection_map ::
  "WorkflowConnection list \<Rightarrow> (pyval \<times> WorkflowConnection list) list \<Rightarrow>
   exn + (pyval \<times> WorkflowConnection list) list" where
  "build_connection_map [] m = Inr m"
| "build_connection_map (conn # rest) m =
     (if hashable (from_node conn) then
        build_connection_map rest
          (kv_set m (from_node conn)
             ((case kv_get m (from_node conn) of None \<Rightarrow> [] | Some cs \<Rightarrow> cs) @ [conn]))
      else Inl (unhashable (from_node conn)))"

text \<open>The loop \<^verbatim>\<open>for start_node in start_nodes\<close>.\<close>

fun run_start_nodes ::
  "'c env \<Rightarrow> 'c \<Rightarrow> WorkflowConnection list \<Rightarrow> (pyval \<times> WorkflowNode) list \<Rightarrow> nat \<Rightarrow>
   WorkflowNode list \<Rightarrow> pyval list \<Rightarrow> walk \<Rightarrow> (exn + pyval list) \<times> walk" where
  "run_start_nodes env ctx connections node_map depth [] final_results w = (Inr final_results, w)"
| "run_start_nodes env ctx connections node_map depth (start_node # rest) final_results w =
     (case execute_node env ctx connections node_map depth start_node w of
        (Inl e, w1) \<Rightarrow> (Inl e, w1)
      | (Inr r, w1) \<Rightarrow>
          run_start_nodes env ctx connections node_map depth rest (final_results @ [r]) w1)"

definition start_nodes_of :: "WorkflowNode list \<Rightarrow> WorkflowConnection list \<Rightarrow> WorkflowNode list" where
  "start_nodes_of nodes connections =
     filter (\<lambda>node. \<not> list_ex (\<lambda>conn. py_eq (to_node conn) (node_id node)) connections) nodes"

definition execute_workflow_graph ::
  "'c env \<Rightarrow> 'c \<Rightarrow> nat \<Rightarrow> WorkflowNode list \<Rightarrow> WorkflowConnection list \<Rightarrow> run \<Rightarrow>
   (exn + pyval) \<times> run" where
  "execute_workflow_graph env ctx depth nodes connections s =
     (case build_node_map nodes [] of
        Inl e \<Rightarrow> (Inl e, s)
      | Inr node_map \<Rightarrow>
          (case build_connection_map connections [] of
             Inl e \<Rightarrow> (Inl e, s)
           | Inr connection_map \<Rightarrow>
               (let start_nodes = start_nodes_of nodes connections in
                if start_nodes = []
                then (Inl (Exn PlainException ''No starting nodes found in workflow''), s)
                else
                  (case run_start_nodes env ctx connections node_map depth start_nodes []
                          \<lparr>wrun = s, visited = [], results = []\<rparr> of
                     (Inl e, w) \<Rightarrow> (Inl e, wrun w)
                   | (Inr final_results, w) \<Rightarrow>
                       (let output_nodes = filter (\<lambda>node. node_type node = OUTPUT) nodes in
                        if output_nodes \<noteq> []
                        then (Inr (PList (map (\<lambda>node. case kv_get (results w) (node_id node) of
                                                         Some r \<Rightarrow> r | None \<Rightarrow> PNone)
                                            output_nodes)), wrun w)
                        else (Inr (case final_results of [r] \<Rightarrow> r | rs \<Rightarrow> PList rs), wrun w))))))"

subsection \<open>Parsing the wire payload\<close>

text \<open>A list comprehension whose element expression may raise: the first raise ends it.\<close>

fun map_exn :: "('a \<Rightarrow> exn + 'b) \<Rightarrow> 'a list \<Rightarrow> exn + 'b list" where
  "map_exn f [] = Inr []"
| "map_exn f (x # xs) =
     (case f x of
        Inl e \<Rightarrow> Inl e
      | Inr y \<Rightarrow> (case map_exn f xs of Inl e \<Rightarrow> Inl e | Inr ys \<Rightarrow> Inr (y # ys)))"

definition parse_node :: "'c env \<Rightarrow> pyval \<Rightarrow> exn + WorkflowNode" where
  "parse_node env node =
     (case py_index node ''id'' of
        Inl e \<Rightarrow> Inl e
      | Inr i \<Rightarrow>
          (case py_index node ''type'' of
             Inl e \<Rightarrow> Inl e
           | Inr tv \<Rightarrow>
               (case NodeType_of env tv of
                  Inl e \<Rightarrow> Inl e
                | Inr t \<Rightarrow>
                    (case py_get node ''config'' (PDict []) of
                       Inl e \<Rightarrow> Inl e
                     | Inr c \<Rightarrow>
                         (case py_get node ''data'' (PDict []) of
                            Inl e \<Rightarrow> Inl e
                          | Inr d \<Rightarrow>
                              (case py_get node ''x'' (PInt 0) of
                                 Inl e \<Rightarrow> Inl e
                               | Inr px \<Rightarrow>
                                   (case py_get node ''y'' (PInt 0) of
                                      Inl e \<Rightarrow> Inl e
                                    | Inr py \<Rightarrow>
                                        Inr \<lparr>node_id = i, node_type = t, config = c, data = d, node_x = px, node_y = py\<rparr>)))))))"

definition parse_connection :: "pyval \<Rightarrow> exn + WorkflowConnection" where
  "parse_connection conn =
     (case py_index conn ''id'' of
        Inl e \<Rightarrow> Inl e
      | Inr i \<Rightarrow>
          (case py_index conn ''from'' of
             Inl e \<Rightarrow> Inl e
           | Inr f \<Rightarrow>
               (case py_index conn ''fromOutput'' of
                  Inl e \<Rightarrow> Inl e
                | Inr fo \<Rightarrow>
                    (case py_index conn ''to'' of
                       Inl e \<Rightarrow> Inl e
                     | Inr t \<Rightarrow>
                         (case py_index conn ''toInput'' of
                            Inl e \<Rightarrow> Inl e
                          | Inr ti \<Rightarrow>
                              Inr \<lparr>conn_id = i, from_node = f, from_output = fo, to_node = t, to_input = ti\<rparr>)))))"

text \<open>\<^verbatim>\<open>[f(x) for x in d.get(key, [])]\<close>.\<close>

definition parse_all :: "(pyval \<Rightarrow> exn + 'a) \<Rightarrow> pyval \<Rightarrow> string \<Rightarrow> exn + 'a list" where
  "parse_all f workflow_data key =
     (case py_get workflow_data key (PList []) of
        Inl e \<Rightarrow> Inl e
      | Inr raw \<Rightarrow>
          (case py_iter raw of
             Inl e \<Rightarrow> Inl e
           | Inr items \<Rightarrow>
               map_exn f items))"

subsection \<open>The engine and its public methods\<close>

record 'c WorkflowEngine =
  engine_context :: 'c
  executions :: "(string \<times> WorkflowExecution) list"

text \<open>The body of the \<^verbatim>\<open>try\<close> of \<^verbatim>\<open>execute_workflow\<close>, up to the result of the graph.\<close>

definition try_execute ::
  "'c env \<Rightarrow> 'c \<Rightarrow> nat \<Rightarrow> pyval \<Rightarrow> run \<Rightarrow> (exn + pyval) \<times> run" where
  "try_execute env ctx depth workflow_data s =
     (case parse_all (parse_node env) workflow_data ''nodes'' of
        Inl e \<Rightarrow> (Inl e, s)
      | Inr nodes \<Rightarrow>
          (case parse_all parse_connection workflow_data ''connections'' of
             Inl e \<Rightarrow> (Inl e, s)
           | Inr connections \<Rightarrow> execute_workflow_graph env ctx depth nodes connections s))"

text \<open>The record \<^verbatim>\<open>execute_workflow\<close> constructs for a run.\<close>

definition new_execution :: "string \<Rightarrow> pyval \<Rightarrow> real \<Rightarrow> WorkflowExecution" where
  "new_execution execution_id input_data t =
     \<lparr>exec_id = execution_id, status = ''running'', current_node = None,
      variables = [(''input'', input_data)], execution_log = [],
      start_time = t, end_time = None\<rparr>"

text \<open>
  \<^verbatim>\<open>execute_workflow\<close>. The registry and the executor hold the same record object, so
  what the executor writes to the record is written to the registry's entry, also when
  the call raises. The \<^verbatim>\<open>except Exception\<close> around the body catches the faults of class
  \<^verbatim>\<open>Exception\<close>; a fault of another class leaves the method as it was raised. The
  arguments after the environment: the interpreter's recursion budget, the engine, and
  the number of clock readings made before the call.
\<close>

definition execute_workflow ::
  "'c env \<Rightarrow> nat \<Rightarrow> 'c WorkflowEngine \<Rightarrow> nat \<Rightarrow> pyval \<Rightarrow> pyval \<Rightarrow>
   (exn + pyval) \<times> 'c WorkflowEngine \<times> nat" where
  "execute_workflow env depth engine k workflow_data input_data =
     (case clock_read env k of (t0, k1) \<Rightarrow>
      case clock_read env k1 of (t1, k2) \<Rightarrow>
        (let execution_id = ''exec_'' @ str_int (py_int t0);
             execution = new_execution execution_id input_data t1;
             engine1 = engine\<lparr>executions := AList.update execution_id execution (executions engine)\<rparr>
         in case try_execute env (engine_context engine1) depth workflow_data \<lparr>exe = execution, ticks = k2\<rparr> of
              (Inr result, s1) \<Rightarrow>
                (case time_time env (s1\<lparr>exe := (exe s1)\<lparr>status := ''completed''\<rparr>\<rparr>) of
                   (t2, s2) \<Rightarrow>
                     (let s3 = s2\<lparr>exe := (exe s2)\<lparr>end_time := Some t2\<rparr>\<rparr> in
                      (Inr (PDict [(''execution_id'', PStr execution_id), (''result'', result),
                                   (''log'', PList (execution_log (exe s3))),
                                   (''duration'', PFloat (float_sub env t2 (start_time (exe s3))))]),
                       engine1\<lparr>executions := AList.update execution_id (exe s3) (executions engine1)\<rparr>,
                       ticks s3)))
            | (Inl e, s1) \<Rightarrow>
                if \<not> caught e
                then (Inl e,
                      engine1\<lparr>executions := AList.update execution_id (exe s1) (executions engine1)\<rparr>,
                      ticks s1)
                else
                  (case time_time env (s1\<lparr>exe := (exe s1)\<lparr>status := ''failed''\<rparr>\<rparr>) of
                     (t2, s2) \<Rightarrow>
                       (case time_time env (s2\<lparr>exe := (exe s2)\<lparr>end_time := Some t2\<rparr>\<rparr>) of
                          (t3, s3) \<Rightarrow>
                            (let s4 = log_append
                                   (PDict [(''timestamp'', PFloat t3), (''level'', PStr ''error''),
                                           (''message'', PStr (exn_str e))]) s3
                             in (Inr (PDict [(''execution_id'', PStr execution_id),
                                             (''error'', PStr (exn_str e)),
                                             (''log'', PList (execution_log (exe s4)))]),
                                 engine1\<lparr>executions := AList.update execution_id (exe s4) (executions engine1)\<rparr>,
                                 ticks s4))))))"

definition opt_val :: "pyval option \<Rightarrow> pyval" where
  "opt_val v = (case v of None \<Rightarrow> PNone | Some x \<Rightarrow> x)"

text \<open>
  \<^verbatim>\<open>get_execution_status\<close>: \<^verbatim>\<open>execution.end_time or time.time()\<close> reads the clock when
  the end time is \<^verbatim>\<open>None\<close> or \<^verbatim>\<open>0.0\<close>.
\<close>

definition get_execution_status ::
  "'c env \<Rightarrow> 'c WorkflowEngine \<Rightarrow> nat \<Rightarrow> string \<Rightarrow> (exn + pyval) \<times> nat" where
  "get_execution_status env engine k execution_id =
     (case map_of (executions engine) execution_id of
        None \<Rightarrow> (Inr PNone, k)
      | Some execution \<Rightarrow>
          (case (case end_time execution of
                   None \<Rightarrow> global_clock_read env k
                 | Some t \<Rightarrow> if t \<noteq> 0 then (Inr t, k) else global_clock_read env k) of
             (Inl e, k') \<Rightarrow> (Inl e, k')
           | (Inr t_end, k') \<Rightarrow>
               (Inr (PDict [(''id'', PStr (exec_id execution)),
                            (''status'', PStr (status execution)),
                            (''current_node'', opt_val (current_node execution)),
                            (''progress'', PInt (int (length (execution_log execution)))),
                            (''start_time'', PFloat (start_time execution)),
                            (''end_time'', (case end_time execution of None \<Rightarrow> PNone | Some t \<Rightarrow> PFloat t)),
                            (''duration'', PFloat (float_sub env t_end (start_time execution)))]),
                k')))"

definition stop_execution ::
  "'c env \<Rightarrow> 'c WorkflowEngine \<Rightarrow> nat \<Rightarrow> string \<Rightarrow> (exn + bool) \<times> 'c WorkflowEngine \<times> nat" where
  "stop_execution env engine k execution_id =
     (case map_of (executions engine) execution_id of
        None \<Rightarrow> (Inr False, engine, k)
      | Some execution \<Rightarrow>
          if status execution = ''running'' then
            (let stopped = execution\<lparr>status := ''stopped''\<rparr>;
                 engine1 = engine\<lparr>executions := AList.update execution_id stopped (executions engine)\<rparr>
             in case global_clock_read env k of
                  (Inl e, k') \<Rightarrow> (Inl e, engine1, k')
                | (Inr t, k') \<Rightarrow>
                    (Inr True,
                     engine\<lparr>executions :=
                        AList.update execution_id (stopped\<lparr>end_time := Some t\<rparr>) (executions engine)\<rparr>,
                     k'))
          else (Inr False, engine, k))"

section \<open>The validator\<close>

text \<open>\<^verbatim>\<open>k in v\<close> for a string \<open>k\<close>: a key of a dict, a substring of a string, an element of a list.\<close>

fun py_contains :: "pyval \<Rightarrow> string \<Rightarrow> exn + bool" where
  "py_contains (PDict kvs) k = Inr (k \<in> set (map fst kvs))"
| "py_contains (PStr s) k = Inr (str_contains s k)"
| "py_contains (PList xs) k = Inr (PStr k \<in> set xs)"
| "py_contains v k =
     Inl (Exn TypeError (''argument of type '' @ quote (type_name v) @ '' is not iterable''))"

text \<open>The first loop: \<^verbatim>\<open>for node in nodes\<close>, its required fields.\<close>

fun check_node_fields :: "'c env \<Rightarrow> pyval list \<Rightarrow> string list \<Rightarrow> exn + string list" where
  "check_node_fields env [] errors = Inr errors"
| "check_node_fields env (node # rest) errors =
     (case py_get node ''id'' PNone of
        Inl e \<Rightarrow> Inl e
      | Inr i \<Rightarrow>
          (let errors1 = (if \<not> py_truthy i
                          then errors @ [''Node missing required '' @ quote ''id'' @ '' field'']
                          else errors)
           in case py_get node ''type'' PNone of
                Inl e \<Rightarrow> Inl e
              | Inr t \<Rightarrow>
                  if \<not> py_truthy t then
                    (case py_get node ''id'' (PStr ''unknown'') of
                       Inl e \<Rightarrow> Inl e
                     | Inr shown \<Rightarrow>
                         check_node_fields env rest
                           (errors1 @ [''Node '' @ py_str env shown @ '' missing required ''
                                       @ quote ''type'' @ '' field'']))
                  else check_node_fields env rest errors1))"

text \<open>The second loop: \<^verbatim>\<open>for conn in connections: for field in required_fields\<close>.\<close>

fun check_conn_fields :: "pyval \<Rightarrow> string list \<Rightarrow> string list \<Rightarrow> exn + string list" where
  "check_conn_fields conn [] errors = Inr errors"
| "check_conn_fields conn (field # rest) errors =
     (case py_contains conn field of
        Inl e \<Rightarrow> Inl e
      | Inr present \<Rightarrow>
          check_conn_fields conn rest
            (if \<not> present
             then errors @ [''Connection missing required '' @ quote field @ '' field'']
             else errors))"

fun check_connections_fields :: "pyval list \<Rightarrow> string list \<Rightarrow> exn + string list" where
  "check_connections_fields [] errors = Inr errors"
| "check_connections_fields (conn # rest) errors =
     (case check_conn_fields conn [''id'', ''from'', ''to'', ''fromOutput'', ''toInput''] errors of
        Inl e \<Rightarrow> Inl e
      | Inr errors1 \<Rightarrow> check_connections_fields rest errors1)"

text \<open>\<^verbatim>\<open>node_ids = {node["id"] for node in nodes}\<close>.\<close>

fun collect_node_ids :: "pyval list \<Rightarrow> pyval list \<Rightarrow> exn + pyval list" where
  "collect_node_ids [] node_ids = Inr node_ids"
| "collect_node_ids (node # rest) node_ids =
     (case py_index node ''id'' of
        Inl e \<Rightarrow> Inl e
      | Inr i \<Rightarrow>
          if hashable i then collect_node_ids rest (set_add node_ids i)
          else Inl (unhashable i))"

text \<open>
  The third loop: the endpoints of every connection. Its state is the errors and the set
  \<^verbatim>\<open>connected_nodes\<close>.
\<close>

fun check_endpoints ::
  "'c env \<Rightarrow> pyval list \<Rightarrow> pyval list \<Rightarrow> string list \<times> pyval list \<Rightarrow>
   exn + string list \<times> pyval list" where
  "check_endpoints env node_ids [] st = Inr st"
| "check_endpoints env node_ids (conn # rest) st =
     (case py_get conn ''from'' PNone of
        Inl e \<Rightarrow> Inl e
      | Inr f \<Rightarrow>
          if \<not> hashable f then Inl (unhashable f)
          else
            (let errors1 = (if \<not> set_has node_ids f
                            then fst st @ [''Connection references non-existent source node: ''
                                           @ py_str env f]
                            else fst st)
             in case py_get conn ''to'' PNone of
                  Inl e \<Rightarrow> Inl e
                | Inr t \<Rightarrow>
                    if \<not> hashable t then Inl (unhashable t)
                    else
                      check_endpoints env node_ids rest
                        (if \<not> set_has node_ids t
                         then errors1 @ [''Connection references non-existent target node: ''
                                         @ py_str env t]
                         else errors1,
                         set_add (set_add (snd st) f) t)))"

text \<open>The fourth loop: nodes no connection touches.\<close>

fun check_orphans ::
  "'c env \<Rightarrow> nat \<Rightarrow> pyval list \<Rightarrow> pyval list \<Rightarrow> string list \<Rightarrow> exn + string list" where
  "check_orphans env n connected_nodes [] warnings = Inr warnings"
| "check_orphans env n connected_nodes (node # rest) warnings =
     (case py_index node ''id'' of
        Inl e \<Rightarrow> Inl e
      | Inr i \<Rightarrow>
          if \<not> hashable i then Inl (unhashable i)
          else if \<not> set_has connected_nodes i \<and> n > 1 then
            (case py_get node ''id'' PNone of
               Inl e \<Rightarrow> Inl e
             | Inr shown \<Rightarrow>
                 check_orphans env n connected_nodes rest
                   (warnings @ [''Node '' @ quote (py_str env shown)
                                @ '' is not connected to the workflow'']))
          else check_orphans env n connected_nodes rest warnings)"

subsection \<open>Cycle detection\<close>

fun adj_nodes :: "pyval list \<Rightarrow> (pyval \<times> pyval list) list \<Rightarrow> exn + (pyval \<times> pyval list) list" where
  "adj_nodes [] adj_list = Inr adj_list"
| "adj_nodes (node # rest) adj_list =
     (case py_index node ''id'' of
        Inl e \<Rightarrow> Inl e
      | Inr i \<Rightarrow>
          if hashable i then adj_nodes rest (kv_set adj_list i [])
          else Inl (unhashable i))"

fun adj_connections ::
  "'c env \<Rightarrow> pyval list \<Rightarrow> (pyval \<times> pyval list) list \<Rightarrow> exn + (pyval \<times> pyval list) list" where
  "adj_connections env [] adj_list = Inr adj_list"
| "adj_connections env (conn # rest) adj_list =
     (case py_get conn ''from'' PNone of
        Inl e \<Rightarrow> Inl e
      | Inr f \<Rightarrow>
          if \<not> py_truthy f then adj_connections env rest adj_list
          else
            (case py_get conn ''to'' PNone of
               Inl e \<Rightarrow> Inl e
             | Inr t \<Rightarrow>
                 if \<not> py_truthy t then adj_connections env rest adj_list
                 else if \<not> hashable f then Inl (unhashable f)
                 else
                   (case kv_get adj_list f of
                      None \<Rightarrow> Inl (Exn KeyError (py_repr env f))
                    | Some ns \<Rightarrow> adj_connections env rest (kv_set adj_list f (ns @ [t])))))"

text \<open>
  \<^verbatim>\<open>has_cycle\<close>, a depth-first search over the adjacency lists. Its state is the pair of
  sets (\<^verbatim>\<open>visited\<close>, \<^verbatim>\<open>rec_stack\<close>); the argument after the adjacency lists is the
  number of nested calls the interpreter still allows. \<open>has_cycle_neighbors\<close> is its \<^verbatim>\<open>for neighbor in ..\<close> loop.
\<close>

fun has_cycle ::
  "'c env \<Rightarrow> (pyval \<times> pyval list) list \<Rightarrow> nat \<Rightarrow> pyval \<Rightarrow> pyval list \<times> pyval list \<Rightarrow>
   (exn + bool) \<times> pyval list \<times> pyval list"
and has_cycle_neighbors ::
  "'c env \<Rightarrow> (pyval \<times> pyval list) list \<Rightarrow> nat \<Rightarrow> pyval list \<Rightarrow> pyval list \<times> pyval list \<Rightarrow>
   (exn + bool) \<times> pyval list \<times> pyval list"
where
  "has_cycle env adj_list 0 i st =
     (Inl (Exn RecursionError (recursion_text env ''has_cycle'')), st)"
| "has_cycle env adj_list (Suc depth) i st =
     (if \<not> hashable i then (Inl (unhashable i), st)
      else if set_has (snd st) i then (Inr True, st)
      else if set_has (fst st) i then (Inr False, st)
      else
        (case has_cycle_neighbors env adj_list depth
                (case kv_get adj_list i of None \<Rightarrow> [] | Some ns \<Rightarrow> ns)
                (set_add (fst st) i, set_add (snd st) i) of
           (Inl e, st1) \<Rightarrow> (Inl e, st1)
         | (Inr found, st1) \<Rightarrow>
             if found then (Inr True, st1)
             else (Inr False, (fst st1, set_remove (snd st1) i))))"
| "has_cycle_neighbors env adj_list depth [] st = (Inr False, st)"
| "has_cycle_neighbors env adj_list depth (neighbor # rest) st =
     (case has_cycle env adj_list depth neighbor st of
        (Inl e, st1) \<Rightarrow> (Inl e, st1)
      | (Inr found, st1) \<Rightarrow>
          if found then (Inr True, st1)
          else has_cycle_neighbors env adj_list depth rest st1)"

text \<open>The loop \<^verbatim>\<open>for node_id in adj_list\<close>.\<close>

fun check_roots ::
  "'c env \<Rightarrow> (pyval \<times> pyval list) list \<Rightarrow> nat \<Rightarrow> pyval list \<Rightarrow> pyval list \<times> pyval list \<Rightarrow> exn + unit" where
  "check_roots env adj_list depth [] st = Inr ()"
| "check_roots env adj_list depth (i # rest) st =
     (if set_has (fst st) i then check_roots env adj_list depth rest st
      else
        (case has_cycle env adj_list depth i st of
           (Inl e, st1) \<Rightarrow> Inl e
         | (Inr found, st1) \<Rightarrow>
             if found then Inl (Exn PlainException ''Circular dependency detected in workflow'')
             else check_roots env adj_list depth rest st1))"

definition check_circular_dependencies ::
  "'c env \<Rightarrow> nat \<Rightarrow> pyval list \<Rightarrow> pyval list \<Rightarrow> exn + unit" where
  "check_circular_dependencies env depth nodes connections =
     (case adj_nodes nodes [] of
        Inl e \<Rightarrow> Inl e
      | Inr adj0 \<Rightarrow>
          (case adj_connections env connections adj0 of
             Inl e \<Rightarrow> Inl e
           | Inr adj_list \<Rightarrow> check_roots env adj_list depth (map fst adj_list) ([], [])))"

definition validate_workflow :: "'c env \<Rightarrow> nat \<Rightarrow> pyval \<Rightarrow> exn + pyval" where
  "validate_workflow env depth workflow_data =
     (case py_get workflow_data ''nodes'' (PList []) of
        Inl e \<Rightarrow> Inl e
      | Inr raw_nodes \<Rightarrow>
          (case py_get workflow_data ''connections'' (PList []) of
             Inl e \<Rightarrow> Inl e
           | Inr raw_connections \<Rightarrow>
               (case py_iter raw_nodes of
                  Inl e \<Rightarrow> Inl e
                | Inr nodes \<Rightarrow>
                    (case check_node_fields env nodes [] of
                       Inl e \<Rightarrow> Inl e
                     | Inr errors1 \<Rightarrow>
                         (case py_iter raw_connections of
                            Inl e \<Rightarrow> Inl e
                          | Inr connections \<Rightarrow>
                              (case check_connections_fields connections errors1 of
                                 Inl e \<Rightarrow> Inl e
                               | Inr errors2 \<Rightarrow>
                                   (case collect_node_ids nodes [] of
                                      Inl e \<Rightarrow> Inl e
                                    | Inr node_ids \<Rightarrow>
                                        (case check_endpoints env node_ids connections (errors2, []) of
                                           Inl e \<Rightarrow> Inl e
                                         | Inr st \<Rightarrow>
                                             (case check_orphans env (length nodes) (snd st) nodes [] of
                                                Inl e \<Rightarrow> Inl e
                                              | Inr warnings \<Rightarrow>
                                                  (case (case check_circular_dependencies env depth nodes connections of
                                                           Inl e \<Rightarrow> if caught e then Inr (fst st @ [exn_str e]) else Inl e
                                                         | Inr u \<Rightarrow> Inr (fst st)) of
                                                     Inl e \<Rightarrow> Inl e
                                                   | Inr errors \<Rightarrow>
                                                       Inr (PDict [(''valid'', PBool (errors = [])),
                                                                   (''errors'', PList (map PStr errors)),
                                                                   (''warnings'', PList (map PStr warnings)),
                                                                   (''node_count'', PInt (int (length nodes))),
                                                                   (''connection_count'', PInt (int (length connections)))])))))))))))"

section \<open>The module's global engine\<close>

text \<open>
  \<^verbatim>\<open>_workflow_engine\<close>, the module's global variable, is the second argument and the
  second result; \<^verbatim>\<open>None\<close> until the first call.
\<close>

definition new_engine :: "'c \<Rightarrow> 'c WorkflowEngine" where
  "new_engine ctx = \<lparr>engine_context = ctx, executions = []\<rparr>"

definition get_workflow_engine ::
  "'c \<Rightarrow> 'c WorkflowEngine option \<Rightarrow> 'c WorkflowEngine \<times> 'c WorkflowEngine option" where
  "get_workflow_engine ctx slot =
     (case slot of
        None \<Rightarrow> (new_engine ctx, Some (new_engine ctx))
      | Some engine \<Rightarrow> (engine, Some engine))"

text \<open>
  The module's \<^verbatim>\<open>execute_workflow(context, workflow_data, input_data)\<close> and
  \<^verbatim>\<open>validate_workflow(context, workflow_data)\<close>. The engine they obtain is the object in
  the global slot, so the slot holds it as the call leaves it.
\<close>

definition module_execute_workflow ::
  "'c env \<Rightarrow> nat \<Rightarrow> 'c WorkflowEngine option \<Rightarrow> nat \<Rightarrow> 'c \<Rightarrow> pyval \<Rightarrow> pyval \<Rightarrow>
   (exn + pyval) \<times> 'c WorkflowEngine option \<times> nat" where
  "module_execute_workflow env depth slot k ctx workflow_data input_data =
     (case get_workflow_engine ctx slot of
        (engine, slot1) \<Rightarrow>
          (case execute_workflow env depth engine k workflow_data input_data of
             (r, engine1, k1) \<Rightarrow> (r, Some engine1, k1)))"

definition module_validate_workflow ::
  "'c env \<Rightarrow> nat \<Rightarrow> 'c WorkflowEngine option \<Rightarrow> 'c \<Rightarrow> pyval \<Rightarrow>
   (exn + pyval) \<times> 'c WorkflowEngine option" where
  "module_validate_workflow env depth slot ctx workflow_data =
     (case get_workflow_engine ctx slot of
        (engine, slot1) \<Rightarrow> (validate_workflow env depth workflow_data, slot1))"

section \<open>Reading results, and concrete inputs\<close>

text \<open>The keys of a returned mapping, in order.\<close>

definition dict_keys :: "pyval \<Rightarrow> string list" where
  "dict_keys v = (case v of PDict kvs \<Rightarrow> map fst kvs | other \<Rightarrow> [])"

text \<open>The \<^verbatim>\<open>log\<close> of a returned mapping.\<close>

definition result_log :: "pyval \<Rightarrow> pyval list" where
  "result_log r =
     (case r of
        PDict kvs \<Rightarrow> (case map_of kvs ''log'' of Some (PList entries) \<Rightarrow> entries | other \<Rightarrow> [])
      | other \<Rightarrow> [])"

text \<open>
  The node ids of the entries of a log that have a given level. \<^verbatim>\<open>_execute_single_node\<close>
  appends one \<^verbatim>\<open>info\<close> entry per dispatch, before it calls the handler, so the
  \<^verbatim>\<open>info\<close> entries of a log are the dispatches of the run.
\<close>

definition entries_at :: "string \<Rightarrow> pyval list \<Rightarrow> pyval list" where
  "entries_at lvl entries =
     concat (map (\<lambda>entry. case entry of
                     PDict kvs \<Rightarrow>
                       (if map_of kvs ''level'' = Some (PStr lvl)
                        then (case map_of kvs ''node_id'' of Some i \<Rightarrow> [i] | None \<Rightarrow> [PNone])
                        else [])
                   | other \<Rightarrow> []) entries)"

definition dispatched :: "pyval list \<Rightarrow> pyval list" where
  "dispatched entries = entries_at ''info'' entries"

text \<open>
  The fields of a record that the handlers and the walk leave alone: only
  \<^verbatim>\<open>execute_workflow\<close> and \<^verbatim>\<open>stop_execution\<close> assign them.
\<close>

definition run_header :: "WorkflowExecution \<Rightarrow> string \<times> string \<times> real \<times> real option" where
  "run_header x = (exec_id x, status x, start_time x, end_time x)"

text \<open>
  An expression that needs no builtin to leave the interpreter: from a tuple it reaches
  \<^verbatim>\<open>object\<close>, among whose subclasses it finds \<^verbatim>\<open>BaseException\<close> and among the
  subclasses of that \<^verbatim>\<open>SystemExit\<close>, which it throws into a generator. Its evaluation
  raises \<^verbatim>\<open>SystemExit()\<close>, whose \<^verbatim>\<open>str\<close> is empty.
\<close>

definition exit_expression :: string where
  "exit_expression =
     ''(_ for _ in ()).throw([e for e in [c for c in ().__class__.__base__.__subclasses__() ''
     @ ''if c.__name__ == '' @ quote ''BaseException'' @ ''][0].__subclasses__() ''
     @ ''if e.__name__ == '' @ quote ''SystemExit'' @ ''][0])''"

text \<open>
  An environment to evaluate examples in: \<^verbatim>\<open>str\<close> and \<^verbatim>\<open>repr\<close> on the scalars the
  examples use, \<^verbatim>\<open>eval\<close> on the literals \<^verbatim>\<open>True\<close> and \<^verbatim>\<open>False\<close>, on the expression
  above and on a bare name (looked up in the scope, \<^verbatim>\<open>NameError\<close> when it is not
  there), no collaborator, and a clock that advances by \<open>1/128\<close> of a second per reading,
  so that its readings are floats and their differences are exact.
\<close>

definition sample_str :: "pyval \<Rightarrow> string" where
  "sample_str v =
     (case v of
        PStr s \<Rightarrow> s
      | PInt i \<Rightarrow> str_int i
      | PBool b \<Rightarrow> (if b then ''True'' else ''False'')
      | PNone \<Rightarrow> ''None''
      | other \<Rightarrow> ''<object>'')"

definition sample_eval :: "pyval \<Rightarrow> pydict \<Rightarrow> exn + pyval" where
  "sample_eval condition scope =
     (case condition of
        PStr s \<Rightarrow>
          if s = ''True'' then Inr (PBool True)
          else if s = ''False'' then Inr (PBool False)
          else if s = exit_expression then Inl (Exn SystemExit [])
          else (case map_of scope s of
                  Some v \<Rightarrow> Inr v
                | None \<Rightarrow> Inl (Exn NameError (''name '' @ quote s @ '' is not defined'')))
      | other \<Rightarrow> Inl (Exn TypeError ''eval() arg 1 must be a string, bytes or code object''))"

definition sample_env :: "string env" where
  "sample_env =
     \<lparr>py_str = sample_str,
      py_repr = (\<lambda>v. case v of PStr s \<Rightarrow> quote s | other \<Rightarrow> sample_str other),
      json_dumps = (\<lambda>v. Inl (Exn ExternalFault ''unavailable'')),
      json_loads = (\<lambda>s. Inl (Exn ExternalFault ''unavailable'')),
      str_format = (\<lambda>t v. Inl (Exn ExternalFault ''unavailable'')),
      py_eval = sample_eval,
      agent_call = (\<lambda>ctx msg. Inl (Exn ExternalFault ''unavailable'')),
      tool_call = (\<lambda>ctx name args. Inl (Exn ExternalFault ''unavailable'')),
      clock = (\<lambda>k. 1000 + real k / 128),
      float_sub = (\<lambda>a b. a - b),
      recursion_text = (\<lambda>f. ''maximum recursion depth exceeded'')\<rparr>"

text \<open>The same, with a clock that advances by a second per reading.\<close>

definition slow_env :: "string env" where
  "slow_env = sample_env\<lparr>clock := (\<lambda>k. 1000 + real k)\<rparr>"

text \<open>Wire payloads.\<close>

definition wire_node :: "string \<Rightarrow> string \<Rightarrow> pydict \<Rightarrow> pyval" where
  "wire_node i t d = PDict [(''id'', PStr i), (''type'', PStr t), (''data'', PDict d)]"

definition wire_conn :: "string \<Rightarrow> string \<Rightarrow> string \<Rightarrow> int \<Rightarrow> pyval" where
  "wire_conn i f t slot =
     PDict [(''id'', PStr i), (''from'', PStr f), (''fromOutput'', PInt 0),
            (''to'', PStr t), (''toInput'', PInt slot)]"

definition wire_graph :: "pyval list \<Rightarrow> pyval list \<Rightarrow> pyval" where
  "wire_graph ns cs = PDict [(''nodes'', PList ns), (''connections'', PList cs)]"

text \<open>The diamond \<open>A \<rightarrow> B, A \<rightarrow> C, B \<rightarrow> D, C \<rightarrow> D\<close>.\<close>

definition diamond :: pyval where
  "diamond =
     wire_graph
       [wire_node ''A'' ''input'' [], wire_node ''B'' ''agent'' [],
        wire_node ''C'' ''tool'' [], wire_node ''D'' ''output'' []]
       [wire_conn ''c1'' ''A'' ''B'' 0, wire_conn ''c2'' ''A'' ''C'' 0,
        wire_conn ''c3'' ''B'' ''D'' 0, wire_conn ''c4'' ''C'' ''D'' 1]"



text \<open>One node of each kind the examples need.\<close>

definition input_only :: pyval where
  "input_only = wire_graph [wire_node ''in'' ''input'' [(''default_value'', PStr ''fallback'')]] []"

definition condition_only :: pyval where
  "condition_only =
     wire_graph [wire_node ''check'' ''condition'' [(''condition'', PStr ''threshold'')]] []"

definition condition_exits :: pyval where
  "condition_exits =
     wire_graph [wire_node ''check'' ''condition'' [(''condition'', PStr exit_expression)]] []"

definition parallel_node :: WorkflowNode where
  "parallel_node =
     \<lparr>node_id = PStr ''fan'', node_type = PARALLEL, config = PDict [],
      data = PDict [(''processing_time'', PInt 0)], node_x = PInt 0, node_y = PInt 0\<rparr>"

definition three_inputs :: pydict where
  "three_inputs = [(''input_0'', PStr ''a''), (''input_1'', PStr ''b''), (''input_2'', PStr ''c'')]"

definition node_without_id :: pyval where
  "node_without_id = wire_graph [PDict [(''type'', PStr ''input'')]] []"

definition running_engine :: "string WorkflowEngine" where
  "running_engine =
     \<lparr>engine_context = ''ctx'',
      executions = [(''exec_1000'', new_execution ''exec_1000'' PNone 1000)]\<rparr>"





text \<open>An entry of a joined result that is a captured exception.\<close>

definition is_exception :: "pyval \<Rightarrow> bool" where
  "is_exception v = (case v of PExc e \<Rightarrow> True | other \<Rightarrow> False)"

text \<open>What the name \<^verbatim>\<open>time\<close> raises where the module does not bind it.\<close>

definition time_undefined :: exn where
  "time_undefined = Exn NameError (''name '' @ quote ''time'' @ '' is not defined'')"

text \<open>
  No id occurs twice in a list of ids, ids compared as Python compares them.
\<close>

definition at_most_once :: "pyval list \<Rightarrow> bool" where
  "at_most_once ids = list_all (\<lambda>i. length (filter (\<lambda>j. py_eq j i) ids) \<le> 1) ids"

text \<open>
  The invariant of the loop over the start nodes: the log's dispatches are those before
  the loop followed by \<open>ids\<close>, no id twice, every one the id of a node of \<open>allowed\<close> and
  in \<^verbatim>\<open>visited\<close>.
\<close>

definition walk_inv :: "pyval list \<Rightarrow> WorkflowNode list \<Rightarrow> walk \<Rightarrow> pyval list \<Rightarrow> bool" where
  "walk_inv before allowed w ids =
     (dispatched (execution_log (exe (wrun w))) = before @ ids
      \<and> at_most_once ids
      \<and> list_all (\<lambda>j. j \<in> set (map node_id allowed)) ids
      \<and> list_all (\<lambda>j. set_has (visited w) j) ids)"

text \<open>More payloads: the cycle \<open>A \<rightarrow> B \<rightarrow> C \<rightarrow> A\<close>, and \<open>A \<rightarrow> B\<close> next to a node \<open>C\<close>
  that no connection touches.\<close>

definition cycle_of_three :: pyval where
  "cycle_of_three =
     wire_graph
       [wire_node ''A'' ''input'' [], wire_node ''B'' ''agent'' [], wire_node ''C'' ''output'' []]
       [wire_conn ''c1'' ''A'' ''B'' 0, wire_conn ''c2'' ''B'' ''C'' 0, wire_conn ''c3'' ''C'' ''A'' 0]"

definition chain_and_orphan :: pyval where
  "chain_and_orphan =
     wire_graph
       [wire_node ''A'' ''input'' [], wire_node ''B'' ''output'' [], wire_node ''C'' ''agent'' []]
       [wire_conn ''c1'' ''A'' ''B'' 0]"

text \<open>A MERGE node with a given strategy, and two inputs.\<close>

definition merge_node :: "string \<Rightarrow> WorkflowNode" where
  "merge_node strategy =
     \<lparr>node_id = PStr ''join'', node_type = MERGE, config = PDict [],
      data = PDict [(''strategy'', PStr strategy)], node_x = PInt 0, node_y = PInt 0\<rparr>"

definition two_inputs :: pydict where
  "two_inputs = [(''input_0'', PStr ''a''), (''input_1'', PStr ''b'')]"

section \<open>Facts about the model\<close>

lemmas prim_defs = py_eq_def quote_def dict_set_def set_has_def set_add_def set_remove_def
  startswith_def input_values_def inputs_get_def clock_read_def time_time_def log_append_def
  global_name_def module_names_def global_clock_read_def global_time_time_def unhashable_def
  opt_val_def caught_def

lemmas run_defs = execute_workflow_def new_execution_def try_execute_def parse_all_def
  parse_node_def parse_connection_def NodeType_of_def execute_workflow_graph_def
  start_nodes_of_def execute_single_node_def node_handlers_def

lemmas wire_defs = wire_node_def wire_conn_def wire_graph_def

lemmas read_defs = dict_keys_def result_log_def entries_at_def dispatched_def

subsection \<open>Start nodes have no prerequisites\<close>

lemma start_node_no_prerequisites:
  assumes "node \<in> set (start_nodes_of nodes connections)"
  shows "filter (\<lambda>conn. py_eq (to_node conn) (node_id node)) connections = []"
  using assms by (auto simp: start_nodes_of_def list_ex_iff filter_empty_conv)

lemma execute_node_no_prerequisites:
  assumes "filter (\<lambda>conn. py_eq (to_node conn) (node_id node)) connections = []"
  shows "execute_node env ctx connections node_map (Suc depth) node w =
         execute_node env ctx connections node_map (Suc 0) node w"
  using assms by simp

lemma run_start_nodes_depth:
  assumes "set ns \<subseteq> set (start_nodes_of nodes connections)"
  shows "run_start_nodes env ctx connections node_map (Suc depth) ns acc w =
         run_start_nodes env ctx connections node_map (Suc 0) ns acc w"
  using assms
proof (induction ns arbitrary: acc w)
  case Nil
  show ?case by simp
next
  case (Cons n ns)
  have n: "n \<in> set (start_nodes_of nodes connections)" using Cons.prems by simp
  have step: "execute_node env ctx connections node_map (Suc depth) n w =
        execute_node env ctx connections node_map (Suc 0) n w"
    by (rule execute_node_no_prerequisites [OF start_node_no_prerequisites [OF n]])
  have rest: "set ns \<subseteq> set (start_nodes_of nodes connections)" using Cons.prems by simp
  show ?case
    unfolding run_start_nodes.simps step
    by (simp add: Cons.IH [OF rest] split: prod.splits sum.splits)
qed

lemma execute_workflow_graph_depth:
  "execute_workflow_graph env ctx (Suc depth) nodes connections s =
   execute_workflow_graph env ctx (Suc 0) nodes connections s"
  unfolding execute_workflow_graph_def
  by (simp add: run_start_nodes_depth [OF subset_refl, where depth = depth] Let_def
           split: sum.splits)

lemma try_execute_depth:
  "try_execute env ctx (Suc depth) workflow_data s = try_execute env ctx (Suc 0) workflow_data s"
  unfolding try_execute_def
  by (simp add: execute_workflow_graph_depth [where depth = depth] split: sum.splits)

lemma execute_workflow_depth:
  "execute_workflow env (Suc depth) engine k workflow_data input_data =
   execute_workflow env (Suc 0) engine k workflow_data input_data"
  unfolding execute_workflow_def by (simp add: try_execute_depth [where depth = depth])




subsection \<open>The decimal rendering of integers is injective\<close>

lemma digit_char_inj: "a < 10 \<Longrightarrow> b < 10 \<Longrightarrow> digit_char a = digit_char b \<Longrightarrow> a = b"
  by (simp add: digit_char_def char_of_eq_iff take_bit_nat_eq_self)

lemma str_nat_nonempty: "str_nat n \<noteq> []"
  by (subst str_nat.simps) simp

lemma str_nat_inj: "str_nat n = str_nat m \<Longrightarrow> n = m"
proof (induction n arbitrary: m rule: str_nat.induct)
  case (1 n)
  show ?case
  proof (cases "n < 10")
    case True
    then have sn: "str_nat n = [digit_char n]" by (subst str_nat.simps) simp
    show ?thesis
    proof (cases "m < 10")
      case m: True
      then have "str_nat m = [digit_char m]" by (subst str_nat.simps) simp
      with sn "1.prems" True m show ?thesis by (auto dest: digit_char_inj)
    next
      case False
      then have "str_nat m = str_nat (m div 10) @ [digit_char (m mod 10)]"
        by (subst str_nat.simps) simp
      with sn "1.prems" str_nat_nonempty [of "m div 10"] show ?thesis
        by (cases "str_nat (m div 10)") auto
    qed
  next
    case False
    then have sn: "str_nat n = str_nat (n div 10) @ [digit_char (n mod 10)]"
      by (subst str_nat.simps) simp
    show ?thesis
    proof (cases "m < 10")
      case True
      then have "str_nat m = [digit_char m]" by (subst str_nat.simps) simp
      with sn "1.prems" str_nat_nonempty [of "n div 10"] show ?thesis
        by (cases "str_nat (n div 10)") auto
    next
      case m: False
      then have sm: "str_nat m = str_nat (m div 10) @ [digit_char (m mod 10)]"
        by (subst str_nat.simps) simp
      from sn sm "1.prems" have a: "str_nat (n div 10) = str_nat (m div 10)"
        and b: "digit_char (n mod 10) = digit_char (m mod 10)" by auto
      from "1.IH" [OF False a] have "n div 10 = m div 10" .
      moreover from b have "n mod 10 = m mod 10" by (intro digit_char_inj) simp_all
      ultimately show ?thesis by (metis div_mult_mod_eq)
    qed
  qed
qed

lemma str_nat_digits: "c \<in> set (str_nat n) \<Longrightarrow> c \<noteq> CHR ''-''"
proof (induction n rule: str_nat.induct)
  case (1 n)
  have d: "\<And>k. k < 10 \<Longrightarrow> digit_char k \<noteq> CHR ''-''"
  proof -
    fix k :: nat
    assume "k < 10"
    then have "of_char (digit_char k) = 48 + k"
      by (simp add: digit_char_def take_bit_nat_eq_self)
    then show "digit_char k \<noteq> CHR ''-''" by auto
  qed
  show ?case
  proof (cases "n < 10")
    case True
    then have "str_nat n = [digit_char n]" by (subst str_nat.simps) simp
    with "1.prems" True d show ?thesis by auto
  next
    case False
    then have "str_nat n = str_nat (n div 10) @ [digit_char (n mod 10)]"
      by (subst str_nat.simps) simp
    with "1.prems" "1.IH" [OF False] d [of "n mod 10"] show ?thesis by auto
  qed
qed

lemma str_int_inj: "str_int i = str_int j \<Longrightarrow> i = j"
proof -
  assume eq: "str_int i = str_int j"
  have hd: "\<And>n. str_nat n \<noteq> CHR ''-'' # s" for s
    using str_nat_digits by (metis list.set_intros(1))
  have hd': "\<And>n. CHR ''-'' # s \<noteq> str_nat n" for s
    using hd by metis
  show ?thesis
  proof (cases "i < 0")
    case True
    show ?thesis
    proof (cases "j < 0")
      case j: True
      with True eq have "str_nat (nat (- i)) = str_nat (nat (- j))" by (simp add: str_int_def)
      then have "nat (- i) = nat (- j)" by (rule str_nat_inj)
      with True j show ?thesis by simp
    next
      case False
      with True eq hd hd' show ?thesis by (auto simp: str_int_def)
    qed
  next
    case False
    show ?thesis
    proof (cases "j < 0")
      case True
      with False eq hd hd' show ?thesis by (auto simp: str_int_def)
    next
      case j: False
      with False eq have "str_nat (nat i) = str_nat (nat j)" by (simp add: str_int_def)
      then have "nat i = nat j" by (rule str_nat_inj)
      with False j show ?thesis by simp
    qed
  qed
qed

lemma execution_id_inj:
  "''exec_'' @ str_int i = ''exec_'' @ str_int j \<Longrightarrow> i = j"
  by (simp add: str_int_inj)

subsection \<open>Comparing ids\<close>

lemma py_eq_sym: "py_eq a b = py_eq b a"
  by (auto simp: py_eq_def split: option.splits)

lemma py_eq_trans: "py_eq a b \<Longrightarrow> py_eq b c \<Longrightarrow> py_eq a c"
  by (auto simp: py_eq_def split: option.splits)

lemma py_eq_refl: "py_eq a a"
  by (auto simp: py_eq_def split: option.splits)

lemma set_has_iff: "set_has xs k = (\<exists>x \<in> set xs. py_eq x k)"
  by (simp add: set_has_def list_ex_iff)

lemma set_has_add: "set_has (set_add xs i) j = (set_has xs j \<or> py_eq i j)"
  by (auto simp: set_add_def set_has_iff dest: py_eq_trans)

lemma set_has_cong: "set_has xs j \<Longrightarrow> py_eq j i \<Longrightarrow> set_has xs i"
  by (auto simp: set_has_iff dest: py_eq_trans)

subsection \<open>The walk on a cycle, and the run without a start node\<close>



subsection \<open>The walk leaves the header of the record alone\<close>

lemma process_parallel_input_state: "snd (process_parallel_input env node v i s) = s"
  by (simp add: process_parallel_input_def global_time_time_def global_clock_read_def
        global_name_def module_names_def split: sum.splits)

lemma gather_units_keeps_state: "snd (gather_units env node i vs s) = s"
proof (induction vs arbitrary: i)
  case Nil
  show ?case by simp
next
  case (Cons v vs)
  from process_parallel_input_state [of env node v i s] Cons.IH [of "Suc i"]
  show ?case by (auto split: prod.splits)
qed

lemma tool_keeps_state: "snd (execute_tool_node env ctx node inputs s) = s"
  by (simp add: execute_tool_node_def split: sum.splits pyval.splits)

lemma handler_keeps_header:
  assumes "node_handlers t = Some h"
  shows "run_header (exe (snd (h env ctx node inputs s))) = run_header (exe s)"
proof (cases t)
  case INPUT
  with assms show ?thesis
    by (auto simp: node_handlers_def execute_input_node_def split: option.splits)
next
  case AGENT
  with assms show ?thesis
    by (auto simp: node_handlers_def execute_agent_node_def Let_def split: sum.splits pyval.splits)
next
  case TOOL
  with assms show ?thesis by (auto simp: node_handlers_def tool_keeps_state)
next
  case CONDITION
  with assms show ?thesis
    by (auto simp: node_handlers_def execute_condition_node_def Let_def global_time_time_def
          global_clock_read_def global_name_def module_names_def split: sum.splits)
next
  case OUTPUT
  with assms show ?thesis
    by (auto simp: node_handlers_def execute_output_node_def Let_def split: sum.splits pyval.splits)
next
  case LOOP
  with assms show ?thesis
    by (auto simp: node_handlers_def execute_loop_node_def Let_def run_header_def split: sum.splits)
next
  case PARALLEL
  with assms gather_units_keeps_state [of env node 0 "input_values inputs" s] show ?thesis
    by (auto simp: node_handlers_def execute_parallel_node_def Let_def split: prod.splits)
next
  case MERGE
  with assms show ?thesis
    by (auto simp: node_handlers_def execute_merge_node_def Let_def split: sum.splits)
qed

lemma single_node_keeps_header:
  "run_header (exe (snd (execute_single_node env ctx node inputs s))) = run_header (exe s)"
proof -
  obtain h where h: "node_handlers (node_type node)
      = Some (h :: 'a env \<Rightarrow> 'a \<Rightarrow> WorkflowNode \<Rightarrow> pydict \<Rightarrow> run \<Rightarrow> (exn + pyval) \<times> run)"
    by (cases "node_type node") (simp_all add: node_handlers_def)
  let ?s2 = "log_append
               (PDict [(''timestamp'', PFloat (clock env (ticks s))), (''level'', PStr ''info''),
                       (''message'', PStr (''Executing node '' @ py_str env (node_id node) @ '' (''
                                          @ type_value (node_type node) @ '')'')),
                       (''node_id'', node_id node)]) (s\<lparr>ticks := Suc (ticks s)\<rparr>)"
  have s2: "run_header (exe ?s2) = run_header (exe s)"
    by (simp add: log_append_def run_header_def)
  obtain r s3 where r: "h env ctx node inputs ?s2 = (r, s3)"
    by (cases "h env ctx node inputs ?s2")
  from handler_keeps_header [OF h, of env ctx node inputs ?s2] r
  have s3: "run_header (exe s3) = run_header (exe ?s2)" by simp
  show ?thesis
    using h r s3 s2
    by (cases r)
       (simp_all add: execute_single_node_def time_time_def clock_read_def Let_def log_append_def
          run_header_def)
qed

lemma execute_node_keeps_header:
  "run_header (exe (wrun (snd (execute_node env ctx connections node_map depth node w))))
     = run_header (exe (wrun w))"
  "run_header (exe (wrun (snd (execute_prerequisites env ctx connections node_map depth' cs acc w'))))
     = run_header (exe (wrun w'))"
proof (induction env ctx connections node_map depth node w
         and env ctx connections node_map depth' cs acc w'
       rule: execute_node_execute_prerequisites.induct)
  case (1 env ctx connections node_map node w)
  show ?case by simp
next
  case (2 env ctx connections node_map depth node w)
  show ?case
  proof (cases "set_has (visited w) (node_id node)")
    case True
    then show ?thesis by simp
  next
    case False
    let ?cs = "filter (\<lambda>conn. py_eq (to_node conn) (node_id node)) connections"
    obtain r w1 where p: "execute_prerequisites env ctx connections node_map depth ?cs [] w = (r, w1)"
      by (cases "execute_prerequisites env ctx connections node_map depth ?cs [] w")
    from "2.IH" [OF False] p
    have h1: "run_header (exe (wrun w1)) = run_header (exe (wrun w))" by simp
    show ?thesis
    proof (cases r)
      case (Inl e)
      with False p h1 show ?thesis by simp
    next
      case (Inr inputs)
      let ?s = "(wrun w1)\<lparr>exe := (exe (wrun w1))\<lparr>current_node := Some (node_id node)\<rparr>\<rparr>"
      obtain r2 s2 where q: "execute_single_node env ctx node inputs ?s = (r2, s2)"
        by (cases "execute_single_node env ctx node inputs ?s")
      from single_node_keeps_header [of env ctx node inputs ?s] q
      have h2: "run_header (exe s2) = run_header (exe (wrun w1))" by (simp add: run_header_def)
      from False p Inr q h1 h2 show ?thesis by (cases r2) simp_all
    qed
  qed
next
  case (3 env ctx connections node_map depth acc w)
  show ?case by simp
next
  case (4 env ctx connections node_map depth prereq rest acc w)
  show ?case
  proof (cases "hashable (from_node prereq)")
    case False
    then show ?thesis by simp
  next
    case True
    show ?thesis
    proof (cases "kv_get node_map (from_node prereq)")
      case None
      with True show ?thesis by simp
    next
      case (Some prereq_node)
      obtain r w1 where p: "execute_node env ctx connections node_map depth prereq_node w = (r, w1)"
        by (cases "execute_node env ctx connections node_map depth prereq_node w")
      from "4.IH"(1) True Some p
      have h1: "run_header (exe (wrun w1)) = run_header (exe (wrun w))" by simp
      show ?thesis
      proof (cases r)
        case (Inl e)
        with True Some p h1 show ?thesis by simp
      next
        case (Inr v)
        from "4.IH"(2) True Some p Inr
        have "run_header (exe (wrun (snd (execute_prerequisites env ctx connections node_map depth
                 rest (dict_set acc (''input_'' @ py_str env (to_input prereq)) v) w1))))
              = run_header (exe (wrun w1))" by simp
        with True Some p Inr h1 show ?thesis by simp
      qed
    qed
  qed
qed

lemma run_start_nodes_keeps_header:
  "run_header (exe (wrun (snd (run_start_nodes env ctx connections node_map depth ns acc w))))
     = run_header (exe (wrun w))"
proof (induction ns arbitrary: acc w)
  case Nil
  show ?case by simp
next
  case (Cons n ns)
  obtain r w1 where p: "execute_node env ctx connections node_map depth n w = (r, w1)"
    by (cases "execute_node env ctx connections node_map depth n w")
  from execute_node_keeps_header(1) [of env ctx connections node_map depth n w] p
  have h1: "run_header (exe (wrun w1)) = run_header (exe (wrun w))" by simp
  from p h1 Cons.IH [of _ w1] show ?case by (cases r) simp_all
qed

lemma execute_workflow_graph_keeps_header:
  "run_header (exe (snd (execute_workflow_graph env ctx depth nodes connections s)))
     = run_header (exe s)"
proof -
  let ?w = "\<lparr>wrun = s, visited = [], results = []\<rparr>"
  have walk: "\<And>nm r w'. run_start_nodes env ctx connections nm depth
                  (start_nodes_of nodes connections) [] ?w = (r, w')
              \<Longrightarrow> run_header (exe (wrun w')) = run_header (exe s)"
  proof -
    fix nm r w'
    assume a: "run_start_nodes env ctx connections nm depth
                 (start_nodes_of nodes connections) [] ?w = (r, w')"
    from run_start_nodes_keeps_header
           [of env ctx connections nm depth "start_nodes_of nodes connections" "[]" ?w] a
    show "run_header (exe (wrun w')) = run_header (exe s)" by simp
  qed
  show ?thesis
    using walk
    by (auto simp: execute_workflow_graph_def Let_def split: sum.splits prod.splits)
qed

lemma try_execute_keeps_header:
  "run_header (exe (snd (try_execute env ctx depth workflow_data s))) = run_header (exe s)"
  by (simp add: try_execute_def execute_workflow_graph_keeps_header split: sum.splits)

section \<open>The claims\<close>

subsection \<open>C1: every node of an acyclic graph is dispatched exactly once\<close>

text \<open>
  C1 says that executing an acyclic graph dispatches each node's handler exactly once, and
  in particular that the diamond \<open>A \<rightarrow> B, A \<rightarrow> C, B \<rightarrow> D, C \<rightarrow> D\<close> evaluates each of
  \<open>A\<close>, \<open>B\<close>, \<open>C\<close> and \<open>D\<close> once. The code walks from the start nodes to their
  prerequisites, and a start node has none: on the diamond, under every environment,
  recursion budget, engine, clock and initial input, the only dispatch is that of \<open>A\<close>;
  \<open>B\<close>, \<open>C\<close> and \<open>D\<close> are never dispatched, and the result, the value of the output node
  \<open>D\<close>, is \<^verbatim>\<open>[None]\<close>.
\<close>

theorem diamond_dispatches_only_start_node:
  "(case fst (execute_workflow env (Suc depth) engine k diamond input_data) of
      Inl e \<Rightarrow> False
    | Inr r \<Rightarrow>
        dispatched (result_log r) = [PStr ''A'']
        \<and> py_get r ''result'' PNone = Inr (PList [PNone]))"
  by (simp add: diamond_def wire_defs run_defs prim_defs read_defs execute_input_node_def Let_def)

subsection \<open>C2: what execute returns, and what crosses its boundary\<close>

text \<open>
  C2 as stated has \<^verbatim>\<open>execute_workflow\<close> return, for every payload, a mapping with the
  keys \<^verbatim>\<open>execution_id\<close>, \<^verbatim>\<open>result\<close> or \<^verbatim>\<open>error\<close>, \<^verbatim>\<open>log\<close> and \<^verbatim>\<open>duration\<close>, and
  never raise. The mapping of a failed run has no \<^verbatim>\<open>duration\<close>: here the run of the
  empty payload, which fails for want of a start node. And the method raises: the run of
  one CONDITION node whose expression raises \<^verbatim>\<open>SystemExit\<close> returns no mapping, the
  \<^verbatim>\<open>SystemExit\<close> leaves \<^verbatim>\<open>execute_workflow\<close>.
\<close>

theorem failed_run_has_no_duration_and_exit_escapes:
  "(case fst (execute_workflow sample_env 1 (new_engine ''ctx'') 0 (PDict []) PNone) of
      Inl e \<Rightarrow> False
    | Inr r \<Rightarrow> dict_keys r = [''execution_id'', ''error'', ''log''])
   \<and> fst (execute_workflow sample_env 1 (new_engine ''ctx'') 0 condition_exits PNone)
     = Inl (Exn SystemExit [])"
  by (simp add: condition_exits_def wire_defs run_defs prim_defs read_defs new_engine_def
        sample_env_def sample_eval_def exit_expression_def execute_condition_node_def Let_def)

text \<open>
  C2, amended: for every payload, initial input, environment, recursion budget, engine and
  clock, the run's record is in the registry under the id \<^verbatim>\<open>exec_\<close> and the whole
  seconds of the first clock reading, with the start time the second reading gave, and
  what \<^verbatim>\<open>execute_workflow\<close> does is settled by the body of its \<^verbatim>\<open>try\<close>:

  \<^item> when the body returns a result, the method returns the mapping with exactly the keys
    \<^verbatim>\<open>execution_id\<close>, \<^verbatim>\<open>result\<close>, \<^verbatim>\<open>log\<close>, \<^verbatim>\<open>duration\<close>, holding that result, and the
    record's status is \<^verbatim>\<open>completed\<close>;

  \<^item> when the body raises a fault of class \<^verbatim>\<open>Exception\<close>, the method returns the mapping
    with exactly the keys \<^verbatim>\<open>execution_id\<close>, \<^verbatim>\<open>error\<close>, \<^verbatim>\<open>log\<close> (no \<^verbatim>\<open>result\<close>, no
    \<^verbatim>\<open>duration\<close>), whose \<^verbatim>\<open>error\<close> is the fault's message; the record's status is
    \<^verbatim>\<open>failed\<close>, and its last log entry has level \<^verbatim>\<open>error\<close> and the same message;

  \<^item> when the body raises a fault of another class (\<^verbatim>\<open>SystemExit\<close>,
    \<^verbatim>\<open>KeyboardInterrupt\<close>, \<^verbatim>\<open>GeneratorExit\<close>, \<^verbatim>\<open>asyncio.CancelledError\<close>), the method raises
    that fault and returns no mapping; the record stays \<^verbatim>\<open>running\<close>, its end time unset.

  In the first two cases the end time is stamped, and the mapping's \<^verbatim>\<open>log\<close> is the
  record's log.
\<close>

theorem execute_workflow_outcomes:
  "(case execute_workflow env depth engine k workflow_data input_data of
      (outcome, engine', k') \<Rightarrow>
        (case map_of (executions engine') (''exec_'' @ str_int (py_int (clock env k))) of
           None \<Rightarrow> False
         | Some x \<Rightarrow>
             exec_id x = ''exec_'' @ str_int (py_int (clock env k))
             \<and> start_time x = clock env (Suc k)
             \<and> (case fst (try_execute env (engine_context engine) depth workflow_data
                            \<lparr>exe = new_execution (''exec_'' @ str_int (py_int (clock env k)))
                                     input_data (clock env (Suc k)),
                             ticks = Suc (Suc k)\<rparr>) of
                   Inr v \<Rightarrow>
                     (case outcome of
                        Inl e \<Rightarrow> False
                      | Inr r \<Rightarrow>
                          dict_keys r = [''execution_id'', ''result'', ''log'', ''duration'']
                          \<and> py_get r ''execution_id'' PNone
                            = Inr (PStr (''exec_'' @ str_int (py_int (clock env k))))
                          \<and> py_get r ''result'' PNone = Inr v
                          \<and> py_get r ''log'' PNone = Inr (PList (execution_log x))
                          \<and> status x = ''completed''
                          \<and> end_time x \<noteq> None)
                 | Inl e \<Rightarrow>
                     if caught e then
                       (case outcome of
                          Inl e' \<Rightarrow> False
                        | Inr r \<Rightarrow>
                            dict_keys r = [''execution_id'', ''error'', ''log'']
                            \<and> py_get r ''execution_id'' PNone
                              = Inr (PStr (''exec_'' @ str_int (py_int (clock env k))))
                            \<and> py_get r ''error'' PNone = Inr (PStr (exn_str e))
                            \<and> py_get r ''log'' PNone = Inr (PList (execution_log x))
                            \<and> status x = ''failed''
                            \<and> end_time x \<noteq> None
                            \<and> execution_log x \<noteq> []
                            \<and> py_get (last (execution_log x)) ''level'' PNone = Inr (PStr ''error'')
                            \<and> py_get (last (execution_log x)) ''message'' PNone
                              = Inr (PStr (exn_str e)))
                     else outcome = Inl e \<and> status x = ''running'' \<and> end_time x = None)))"
proof -
  let ?id = "''exec_'' @ str_int (py_int (clock env k))"
  let ?s0 = "\<lparr>exe = new_execution ?id input_data (clock env (Suc k)), ticks = Suc (Suc k)\<rparr>"
  obtain res s1
    where t: "try_execute env (engine_context engine) depth workflow_data ?s0 = (res, s1)"
    by (cases "try_execute env (engine_context engine) depth workflow_data ?s0")
  from try_execute_keeps_header [of env "engine_context engine" depth workflow_data ?s0] t
  have h: "exec_id (exe s1) = ?id" "status (exe s1) = ''running''"
    "start_time (exe s1) = clock env (Suc k)" "end_time (exe s1) = None"
    by (simp_all add: run_header_def new_execution_def)
  show ?thesis
  proof (cases res)
    case (Inr v)
    with t h show ?thesis
      by (simp add: execute_workflow_def clock_read_def time_time_def log_append_def
            dict_keys_def Let_def update_conv')
  next
    case (Inl e)
    show ?thesis
    proof (cases "caught e")
      case True
      with Inl t h show ?thesis
        by (simp add: execute_workflow_def clock_read_def time_time_def log_append_def
              dict_keys_def Let_def update_conv')
    next
      case False
      with Inl t h show ?thesis
        by (simp add: execute_workflow_def clock_read_def time_time_def log_append_def
              dict_keys_def Let_def update_conv')
    qed
  qed
qed

subsection \<open>C3: a cyclic graph at run time\<close>




subsection \<open>C4: a condition whose expression faults\<close>

lemma condition_fault_raises:
  assumes "py_get (data node) ''condition'' (PStr ''True'') = Inr condition"
    and "py_eval env condition
           (foldl (\<lambda>d kv. dict_set d (fst kv) (snd kv))
              [(''input'', inputs_get inputs ''input_0'' (PBool True)),
               (''variables'', PDict (variables (exe s)))] inputs) = Inl e"
    and "caught e"
  shows "execute_condition_node env ctx node inputs s = (Inl time_undefined, s)"
  using assms
  by (auto simp: execute_condition_node_def Let_def global_time_time_def global_clock_read_def
        global_name_def module_names_def time_undefined_def)

text \<open>
  C4 says a CONDITION node whose expression faults yields
  \<^verbatim>\<open>{condition_result: true, value: input}\<close> and appends a warning entry. The handler's
  \<^verbatim>\<open>except\<close> branch builds the warning entry with \<^verbatim>\<open>time.time()\<close>, and \<^verbatim>\<open>time\<close> is not a
  name of the module: the branch raises \<^verbatim>\<open>NameError\<close> before anything is appended. On
  the graph of one CONDITION node whose expression is the undefined name
  \<^verbatim>\<open>threshold\<close>, the run fails with that error, and its log has no warning entry.
\<close>

theorem condition_fault_fails_the_run:
  "(case fst (execute_workflow sample_env (Suc depth) engine k condition_only input_data) of
      Inl e \<Rightarrow> False
    | Inr r \<Rightarrow>
        dict_keys r = [''execution_id'', ''error'', ''log'']
        \<and> py_get r ''error'' PNone = Inr (PStr (exn_str time_undefined))
        \<and> entries_at ''warning'' (result_log r) = [])"
  by (simp add: condition_only_def wire_defs run_defs prim_defs read_defs sample_env_def
        sample_eval_def exit_expression_def execute_condition_node_def time_undefined_def Let_def)

subsection \<open>C5: the entries of a PARALLEL node\<close>

lemma process_parallel_input_raises:
  "isl (fst (process_parallel_input env node v i s)) \<and> snd (process_parallel_input env node v i s) = s"
  by (simp add: process_parallel_input_def global_time_time_def global_clock_read_def
        global_name_def module_names_def split: sum.splits)

lemma gather_units_all_exceptions:
  "length (fst (gather_units env node i vs s)) = length vs
   \<and> list_all is_exception (fst (gather_units env node i vs s))
   \<and> snd (gather_units env node i vs s) = s"
proof (induction vs arbitrary: i)
  case Nil
  show ?case by simp
next
  case (Cons v vs)
  obtain r s' where u: "process_parallel_input env node v i s = (r, s')" by (cases "process_parallel_input env node v i s")
  with process_parallel_input_raises [of env node v i s] have r: "isl r" and s': "s' = s" by auto
  obtain rs s'' where g: "gather_units env node (Suc i) vs s = (rs, s'')" by (cases "gather_units env node (Suc i) vs s")
  with Cons.IH [of "Suc i"] have "length rs = length vs" "list_all is_exception rs" "s'' = s" by auto
  moreover have "\<And>e. is_exception (PExc e)" by (simp add: is_exception_def)
  ultimately show ?case using u g r s' by (auto simp: isl_def)
qed

text \<open>
  C5 says the join of a PARALLEL node has one entry per input, a faulting unit's entry
  being its captured fault and every other entry a normal result, as entries 1 and 3 of
  three when only unit 2 faults. Every unit ends by reading \<^verbatim>\<open>time.time()\<close> for its
  \<^verbatim>\<open>timestamp\<close>, and \<^verbatim>\<open>time\<close> is not a name of the module: every unit raises, whatever its
  input. With the three inputs \<^verbatim>\<open>a\<close>, \<^verbatim>\<open>b\<close>, \<^verbatim>\<open>c\<close> the node returns three captured
  \<^verbatim>\<open>NameError\<close>s and no normal result.
\<close>

theorem parallel_units_all_raise:
  "execute_parallel_node env ctx parallel_node three_inputs s
     = (Inr (PList [PExc time_undefined, PExc time_undefined, PExc time_undefined]), s)"
  by (simp add: execute_parallel_node_def parallel_node_def three_inputs_def
        process_parallel_input_def asyncio_sleep_def prim_defs time_undefined_def Let_def)

subsection \<open>C6: the value of an INPUT node\<close>

text \<open>
  C6 says an INPUT node returns the node's \<^verbatim>\<open>default_value\<close> when the run has no initial
  input. \<^verbatim>\<open>execute_workflow\<close> seeds the variables with the key \<^verbatim>\<open>input\<close> whatever the
  initial input is, so the handler's test \<^verbatim>\<open>"input" in execution.variables\<close> holds: the
  run of one INPUT node with the default \<^verbatim>\<open>fallback\<close>, started with no initial input
  (\<^verbatim>\<open>None\<close>), returns \<^verbatim>\<open>None\<close>.
\<close>

theorem input_node_ignores_default:
  "(case fst (execute_workflow env (Suc depth) engine k input_only PNone) of
      Inl e \<Rightarrow> False
    | Inr r \<Rightarrow> py_get r ''result'' (PStr ''absent'') = Inr PNone)"
  by (simp add: input_only_def wire_defs run_defs prim_defs execute_input_node_def Let_def)

subsection \<open>C7: validate on a malformed payload\<close>

text \<open>
  C7 says \<^verbatim>\<open>validate_workflow\<close> returns its report for every payload, malformed ones
  included, without raising. Its first loop records a node that lacks \<^verbatim>\<open>id\<close> as an
  error; the set comprehension after it then reads \<^verbatim>\<open>node["id"]\<close>: on the payload of one
  node without an \<^verbatim>\<open>id\<close> the call raises \<^verbatim>\<open>KeyError\<close> and returns no report.
\<close>

theorem validate_raises_on_missing_id:
  "validate_workflow env depth node_without_id = Inl (Exn KeyError (quote ''id''))"
  by (simp add: validate_workflow_def node_without_id_def wire_defs prim_defs Let_def)

subsection \<open>C8: stopping an execution\<close>

lemma stop_not_running:
  assumes "case map_of (executions engine) i of None \<Rightarrow> True | Some x \<Rightarrow> status x \<noteq> ''running''"
  shows "stop_execution env engine k i = (Inr False, engine, k)"
  using assms by (auto simp: stop_execution_def split: option.splits)

text \<open>
  C8 says \<^verbatim>\<open>stop_execution\<close> moves a running record to \<^verbatim>\<open>stopped\<close> and stamps its end
  time. The method sets the status and then reads \<^verbatim>\<open>time.time()\<close>, and \<^verbatim>\<open>time\<close> is not a
  name of the module: on a running record the call raises \<^verbatim>\<open>NameError\<close>, with the
  status already \<^verbatim>\<open>stopped\<close> and the end time still unset, and returns nothing.
\<close>

theorem stop_running_raises:
  "stop_execution env running_engine k ''exec_1000''
     = (Inl time_undefined,
        running_engine\<lparr>executions :=
          [(''exec_1000'', (new_execution ''exec_1000'' PNone 1000)\<lparr>status := ''stopped''\<rparr>)]\<rparr>,
        k)
   \<and> end_time ((new_execution ''exec_1000'' PNone 1000)\<lparr>status := ''stopped''\<rparr>) = None"
  by (simp add: stop_execution_def running_engine_def new_execution_def prim_defs
        time_undefined_def Let_def)

subsection \<open>C9: the engine of a context\<close>

text \<open>
  C9 as stated binds the engine obtained for a second context \<open>c2\<close> to \<open>c2\<close>. The module
  keeps one engine in a global variable: after a call for \<^verbatim>\<open>c1\<close>, the engine a call for
  \<^verbatim>\<open>c2\<close> obtains is bound to \<^verbatim>\<open>c1\<close>.
\<close>

theorem second_context_gets_first_engine:
  "engine_context (fst (get_workflow_engine ''c2'' (snd (get_workflow_engine ''c1'' None))))
     \<noteq> ''c2''"
  by (simp add: get_workflow_engine_def new_engine_def)

text \<open>
  C9, amended: the module holds one process-wide engine in the global
  \<^verbatim>\<open>_workflow_engine\<close>. The first call of \<^verbatim>\<open>get_workflow_engine\<close> constructs an engine
  bound to its context, with an empty registry, and stores it; every later call returns
  the stored engine whatever context it is given. So the module's \<^verbatim>\<open>execute_workflow\<close>
  for a second context runs on the first context's engine and registry, and its outcome
  does not depend on the context it was called with.
\<close>

theorem global_engine_is_shared:
  "get_workflow_engine c1 None = (new_engine c1, Some (new_engine c1))
   \<and> get_workflow_engine c2 (Some engine) = (engine, Some engine)
   \<and> get_workflow_engine c2 (snd (get_workflow_engine c1 None))
     = (new_engine c1, Some (new_engine c1))
   \<and> module_execute_workflow env depth (Some engine) k c2 workflow_data input_data
     = (case execute_workflow env depth engine k workflow_data input_data of
          (r, engine1, k1) \<Rightarrow> (r, Some engine1, k1))"
  by (simp add: get_workflow_engine_def module_execute_workflow_def)

subsection \<open>C10: execution ids\<close>

lemma execute_workflow_record:
  assumes "execute_workflow env depth engine k workflow_data input_data = (outcome, engine', k')"
  shows "(case outcome of
            Inr r \<Rightarrow> py_get r ''execution_id'' PNone
                     = Inr (PStr (''exec_'' @ str_int (py_int (clock env k))))
          | Inl e \<Rightarrow> \<not> caught e)
         \<and> map_of (executions engine') (''exec_'' @ str_int (py_int (clock env k))) \<noteq> None"
proof (cases "try_execute env (engine_context engine) depth workflow_data
               \<lparr>exe = new_execution (''exec_'' @ str_int (py_int (clock env k)))
                        input_data (clock env (Suc k)),
                ticks = Suc (Suc k)\<rparr>")
  case (Pair res s1)
  with assms show ?thesis
    by (cases res)
       (auto simp: execute_workflow_def clock_read_def time_time_def log_append_def Let_def
          update_conv' split: if_splits)
qed

lemma execute_workflow_frame:
  assumes "execute_workflow env depth engine k workflow_data input_data = (outcome, engine', k')"
    and "i \<noteq> ''exec_'' @ str_int (py_int (clock env k))"
  shows "map_of (executions engine') i = map_of (executions engine) i"
proof (cases "try_execute env (engine_context engine) depth workflow_data
               \<lparr>exe = new_execution (''exec_'' @ str_int (py_int (clock env k)))
                        input_data (clock env (Suc k)),
                ticks = Suc (Suc k)\<rparr>")
  case (Pair res s1)
  with assms show ?thesis
    by (cases res)
       (auto simp: execute_workflow_def clock_read_def time_time_def log_append_def Let_def
          update_conv' split: if_splits)
qed

lemma get_execution_status_found:
  assumes "map_of (executions engine) i \<noteq> None"
  shows "fst (get_execution_status env engine k i) \<noteq> Inr PNone"
  using assms
  by (auto simp: get_execution_status_def global_clock_read_def global_name_def module_names_def
        split: option.splits)

text \<open>
  C10 as stated gives any two calls of \<^verbatim>\<open>execute_workflow\<close> on one engine distinct ids.
  The id is \<^verbatim>\<open>exec_\<close> and the whole seconds of the clock: two runs that start within
  the same second get the same id, and the second run's record replaces the first's in
  the registry.
\<close>

theorem same_second_runs_collide:
  "(case execute_workflow sample_env 1 (new_engine ''ctx'') 0 input_only (PStr ''first'') of
      (Inl e1, engine1, k1) \<Rightarrow> False
    | (Inr r1, engine1, k1) \<Rightarrow>
        (case execute_workflow sample_env 1 engine1 k1 input_only (PStr ''second'') of
           (Inl e2, engine2, k2) \<Rightarrow> False
         | (Inr r2, engine2, k2) \<Rightarrow>
             py_get r1 ''execution_id'' PNone = Inr (PStr ''exec_1000'')
             \<and> py_get r2 ''execution_id'' PNone = Inr (PStr ''exec_1000'')
             \<and> map (\<lambda>p. (fst p, variables (snd p))) (executions engine1)
               = [(''exec_1000'', [(''input'', PStr ''first'')])]
             \<and> map (\<lambda>p. (fst p, variables (snd p))) (executions engine2)
               = [(''exec_1000'', [(''input'', PStr ''second'')])]))"
  by code_simp

text \<open>
  C10, amended: two calls of \<^verbatim>\<open>execute_workflow\<close> on one engine whose first clock
  readings differ in their whole seconds get distinct ids, each \<^verbatim>\<open>exec_\<close> and the whole
  seconds of its first reading; the later run leaves the earlier run's record as it was,
  so the registry holds both records, each under its own id, and
  \<^verbatim>\<open>get_execution_status\<close> finds both. A call that returns a mapping returns its id in
  it; the only call that returns none is one a fault outside class \<^verbatim>\<open>Exception\<close> ended,
  and its record is in the registry all the same. Two calls that start within the same
  second share one id.
\<close>

theorem runs_in_distinct_seconds_keep_both_records:
  assumes "execute_workflow env depth engine k workflow_data input_data = (out1, engine1, k1)"
    and "execute_workflow env depth' engine1 k' workflow_data' input_data' = (out2, engine2, k2)"
    and "py_int (clock env k) \<noteq> py_int (clock env k')"
  shows "\<exists>id1 id2 x1.
           id1 = ''exec_'' @ str_int (py_int (clock env k))
           \<and> id2 = ''exec_'' @ str_int (py_int (clock env k'))
           \<and> (case out1 of
                 Inr r1 \<Rightarrow> py_get r1 ''execution_id'' PNone = Inr (PStr id1)
               | Inl e \<Rightarrow> \<not> caught e)
           \<and> (case out2 of
                 Inr r2 \<Rightarrow> py_get r2 ''execution_id'' PNone = Inr (PStr id2)
               | Inl e \<Rightarrow> \<not> caught e)
           \<and> id1 \<noteq> id2
           \<and> map_of (executions engine1) id1 = Some x1
           \<and> map_of (executions engine2) id1 = Some x1
           \<and> map_of (executions engine2) id2 \<noteq> None
           \<and> fst (get_execution_status env engine2 k2 id1) \<noteq> Inr PNone
           \<and> fst (get_execution_status env engine2 k2 id2) \<noteq> Inr PNone"
proof -
  let ?id1 = "''exec_'' @ str_int (py_int (clock env k))"
  let ?id2 = "''exec_'' @ str_int (py_int (clock env k'))"
  have ne: "?id1 \<noteq> ?id2" using assms(3) execution_id_inj by blast
  from execute_workflow_record [OF assms(1)]
  have r1: "case out1 of
              Inr r1 \<Rightarrow> py_get r1 ''execution_id'' PNone = Inr (PStr ?id1)
            | Inl e \<Rightarrow> \<not> caught e"
    and m1: "map_of (executions engine1) ?id1 \<noteq> None" by auto
  from execute_workflow_record [OF assms(2)]
  have r2: "case out2 of
              Inr r2 \<Rightarrow> py_get r2 ''execution_id'' PNone = Inr (PStr ?id2)
            | Inl e \<Rightarrow> \<not> caught e"
    and m2: "map_of (executions engine2) ?id2 \<noteq> None" by auto
  from m1 obtain x1 where x1: "map_of (executions engine1) ?id1 = Some x1" by auto
  from execute_workflow_frame [OF assms(2) ne] x1
  have kept: "map_of (executions engine2) ?id1 = Some x1" by simp
  have found: "map_of (executions engine2) ?id1 \<noteq> None" using kept by simp
  have s1: "fst (get_execution_status env engine2 k2 ?id1) \<noteq> Inr PNone"
    by (rule get_execution_status_found) (rule found)
  have s2: "fst (get_execution_status env engine2 k2 ?id2) \<noteq> Inr PNone"
    by (rule get_execution_status_found) (rule m2)
  from r1 r2 ne x1 kept m2 s1 s2 show ?thesis by blast
qed

theorem runs_in_distinct_seconds_keep_both_records_witness:
  "py_int (clock slow_env 0) \<noteq> py_int (clock slow_env 5)
   \<and> (\<exists>id1 id2 x1.
         (case fst (execute_workflow slow_env 1 (new_engine ''ctx'') 0 input_only (PStr ''first'')) of
            Inr r1 \<Rightarrow> py_get r1 ''execution_id'' PNone = Inr (PStr id1)
          | Inl e \<Rightarrow> False)
         \<and> (case fst (execute_workflow slow_env 1
                        (fst (snd (execute_workflow slow_env 1 (new_engine ''ctx'') 0 input_only
                                     (PStr ''first''))))
                        5 diamond (PStr ''second'')) of
              Inr r2 \<Rightarrow> py_get r2 ''execution_id'' PNone = Inr (PStr id2)
            | Inl e \<Rightarrow> False)
         \<and> id1 \<noteq> id2
         \<and> map_of (executions
                     (fst (snd (execute_workflow slow_env 1 (new_engine ''ctx'') 0 input_only
                                  (PStr ''first''))))) id1 = Some x1
         \<and> map_of (executions
                     (fst (snd (execute_workflow slow_env 1
                                  (fst (snd (execute_workflow slow_env 1 (new_engine ''ctx'') 0
                                               input_only (PStr ''first''))))
                                  5 diamond (PStr ''second''))))) id1 = Some x1)
   \<and> map fst (executions
                (fst (snd (execute_workflow slow_env 1
                             (fst (snd (execute_workflow slow_env 1 (new_engine ''ctx'') 0
                                          input_only (PStr ''first''))))
                             5 diamond (PStr ''second'')))))
     = [''exec_1000'', ''exec_1005'']"
proof -
  let ?R1 = "execute_workflow slow_env 1 (new_engine ''ctx'') 0 input_only (PStr ''first'')"
  let ?R2 = "execute_workflow slow_env 1 (fst (snd ?R1)) 5 diamond (PStr ''second'')"
  have h1: "?R1 = (fst ?R1, fst (snd ?R1), snd (snd ?R1))" by simp
  have h2: "?R2 = (fst ?R2, fst (snd ?R2), snd (snd ?R2))" by simp
  have h3: "py_int (clock slow_env 0) \<noteq> py_int (clock slow_env 5)"
    by (simp add: slow_env_def sample_env_def py_int_def)
  have keys: "map fst (executions (fst (snd ?R2))) = [''exec_1000'', ''exec_1005'']"
    by code_simp
  have returned: "\<not> isl (fst ?R1) \<and> \<not> isl (fst ?R2)"
    by code_simp
  from runs_in_distinct_seconds_keep_both_records [OF h1 h2 h3]
  obtain id1 id2 x1 where
    "case fst ?R1 of
       Inr r1 \<Rightarrow> py_get r1 ''execution_id'' PNone = Inr (PStr id1)
     | Inl e \<Rightarrow> \<not> caught e"
    "case fst ?R2 of
       Inr r2 \<Rightarrow> py_get r2 ''execution_id'' PNone = Inr (PStr id2)
     | Inl e \<Rightarrow> \<not> caught e"
    "id1 \<noteq> id2"
    "map_of (executions (fst (snd ?R1))) id1 = Some x1"
    "map_of (executions (fst (snd ?R2))) id1 = Some x1"
    by blast
  with returned have "\<exists>id1 id2 x1.
      (case fst ?R1 of
         Inr r1 \<Rightarrow> py_get r1 ''execution_id'' PNone = Inr (PStr id1)
       | Inl e \<Rightarrow> False)
      \<and> (case fst ?R2 of
           Inr r2 \<Rightarrow> py_get r2 ''execution_id'' PNone = Inr (PStr id2)
         | Inl e \<Rightarrow> False)
      \<and> id1 \<noteq> id2
      \<and> map_of (executions (fst (snd ?R1))) id1 = Some x1
      \<and> map_of (executions (fst (snd ?R2))) id1 = Some x1"
    by (cases "fst ?R1"; cases "fst ?R2") auto
  with h3 keys show ?thesis by (intro conjI)
qed

section \<open>Further properties of the engine\<close>

subsection \<open>No node is dispatched twice, and only start nodes are dispatched\<close>

lemma dispatched_append: "dispatched (xs @ ys) = dispatched xs @ dispatched ys"
  by (simp add: read_defs)

lemma dispatched_other_level:
  "lvl \<noteq> ''info'' \<Longrightarrow> dispatched [PDict ((''timestamp'', t) # (''level'', PStr lvl) # rest)] = []"
  by (simp add: read_defs)

lemma dispatched_info:
  "dispatched [PDict [(''timestamp'', t), (''level'', PStr ''info''), (''message'', m),
                      (''node_id'', i)]] = [i]"
  by (simp add: read_defs)

text \<open>A handler appends no \<^verbatim>\<open>info\<close> entry.\<close>

lemma handler_keeps_dispatches:
  assumes "node_handlers t = Some h"
  shows "dispatched (execution_log (exe (snd (h env ctx node inputs s))))
         = dispatched (execution_log (exe s))"
proof (cases t)
  case INPUT
  with assms show ?thesis
    by (auto simp: node_handlers_def execute_input_node_def split: option.splits)
next
  case AGENT
  with assms show ?thesis
    by (auto simp: node_handlers_def execute_agent_node_def Let_def split: sum.splits pyval.splits)
next
  case TOOL
  with assms show ?thesis by (auto simp: node_handlers_def tool_keeps_state)
next
  case CONDITION
  with assms show ?thesis
    by (auto simp: node_handlers_def execute_condition_node_def Let_def global_time_time_def
          global_clock_read_def global_name_def module_names_def split: sum.splits)
next
  case OUTPUT
  with assms show ?thesis
    by (auto simp: node_handlers_def execute_output_node_def Let_def split: sum.splits pyval.splits)
next
  case LOOP
  with assms show ?thesis
    by (auto simp: node_handlers_def execute_loop_node_def Let_def split: sum.splits)
next
  case PARALLEL
  with assms gather_units_keeps_state [of env node 0 "input_values inputs" s] show ?thesis
    by (auto simp: node_handlers_def execute_parallel_node_def Let_def split: prod.splits)
next
  case MERGE
  with assms show ?thesis
    by (auto simp: node_handlers_def execute_merge_node_def Let_def split: sum.splits)
qed

text \<open>A dispatch appends one \<^verbatim>\<open>info\<close> entry, that of its node.\<close>

lemma single_node_dispatch:
  "dispatched (execution_log (exe (snd (execute_single_node env ctx node inputs s))))
   = dispatched (execution_log (exe s)) @ [node_id node]"
proof -
  obtain h where h: "node_handlers (node_type node)
      = Some (h :: 'a env \<Rightarrow> 'a \<Rightarrow> WorkflowNode \<Rightarrow> pydict \<Rightarrow> run \<Rightarrow> (exn + pyval) \<times> run)"
    by (cases "node_type node") (simp_all add: node_handlers_def)
  let ?s2 = "log_append
               (PDict [(''timestamp'', PFloat (clock env (ticks s))), (''level'', PStr ''info''),
                       (''message'', PStr (''Executing node '' @ py_str env (node_id node) @ '' (''
                                          @ type_value (node_type node) @ '')'')),
                       (''node_id'', node_id node)]) (s\<lparr>ticks := Suc (ticks s)\<rparr>)"
  have s2: "dispatched (execution_log (exe ?s2))
            = dispatched (execution_log (exe s)) @ [node_id node]"
    by (simp add: log_append_def dispatched_append dispatched_info)
  obtain r s3 where r: "h env ctx node inputs ?s2 = (r, s3)"
    by (cases "h env ctx node inputs ?s2")
  from handler_keeps_dispatches [OF h, of env ctx node inputs ?s2] r
  have s3: "dispatched (execution_log (exe s3)) = dispatched (execution_log (exe ?s2))" by simp
  show ?thesis
    using h r s3 s2
    by (cases r)
       (simp_all add: execute_single_node_def time_time_def clock_read_def Let_def log_append_def
          dispatched_append dispatched_other_level)
qed

lemma at_most_once_Nil: "at_most_once []"
  by (simp add: at_most_once_def)

lemma at_most_once_snoc:
  assumes "at_most_once ids" and "\<not> list_ex (\<lambda>j. py_eq j i) ids"
  shows "at_most_once (ids @ [i])"
proof -
  have none: "\<And>j. j \<in> set ids \<Longrightarrow> \<not> py_eq j i" using assms(2) by (auto simp: list_ex_iff)
  have a: "filter (\<lambda>j. py_eq j i) ids = []" using none by (simp add: filter_empty_conv)
  have b: "\<And>x. x \<in> set ids \<Longrightarrow> \<not> py_eq i x" using none by (simp add: py_eq_sym)
  show ?thesis
    using assms(1) a b by (auto simp: at_most_once_def list_all_iff py_eq_refl)
qed

text \<open>One call of \<^verbatim>\<open>execute_node\<close> on a node without incoming connections.\<close>

lemma start_node_step:
  assumes none: "filter (\<lambda>conn. py_eq (to_node conn) (node_id node)) connections = []"
    and allowed: "node \<in> set allowed"
    and run: "execute_node env ctx connections node_map depth node w = (r, w')"
    and inv: "walk_inv before allowed w ids"
  shows "\<exists>ids'. dispatched (execution_log (exe (wrun w'))) = before @ ids'
                \<and> at_most_once ids'
                \<and> list_all (\<lambda>j. j \<in> set (map node_id allowed)) ids'
                \<and> (\<not> isl r \<longrightarrow> walk_inv before allowed w' ids')"
proof (cases depth)
  case 0
  with run inv show ?thesis by (auto simp: walk_inv_def)
next
  case (Suc d)
  show ?thesis
  proof (cases "set_has (visited w) (node_id node)")
    case True
    with run Suc inv show ?thesis by (auto simp: walk_inv_def)
  next
    case False
    let ?s = "(wrun w)\<lparr>exe := (exe (wrun w))\<lparr>current_node := Some (node_id node)\<rparr>\<rparr>"
    obtain res s1 where single: "execute_single_node env ctx node [] ?s = (res, s1)"
      by (cases "execute_single_node env ctx node [] ?s")
    from single_node_dispatch [of env ctx node "[]" ?s] single inv
    have log: "dispatched (execution_log (exe s1)) = before @ (ids @ [node_id node])"
      by (simp add: walk_inv_def)
    have fresh: "\<not> list_ex (\<lambda>j. py_eq j (node_id node)) ids"
    proof
      assume "list_ex (\<lambda>j. py_eq j (node_id node)) ids"
      then obtain j where j: "j \<in> set ids" "py_eq j (node_id node)" by (auto simp: list_ex_iff)
      from inv j(1) have "set_has (visited w) j" by (auto simp: walk_inv_def list_all_iff)
      then have "set_has (visited w) (node_id node)" using j(2) by (rule set_has_cong)
      with False show False by simp
    qed
    from inv have amo: "at_most_once (ids @ [node_id node])"
      by (intro at_most_once_snoc fresh) (simp add: walk_inv_def)
    from inv allowed
    have known: "list_all (\<lambda>j. j \<in> set (map node_id allowed)) (ids @ [node_id node])"
      by (auto simp: walk_inv_def list_all_iff)
    from inv
    have seen: "list_all (\<lambda>j. set_has (set_add (visited w) (node_id node)) j)
                  (ids @ [node_id node])"
      by (auto simp: walk_inv_def list_all_iff set_has_add py_eq_refl)
    show ?thesis
    proof (cases res)
      case (Inl e)
      with run Suc False none single have "r = Inl e" "wrun w' = s1" by auto
      with log amo known show ?thesis by auto
    next
      case (Inr v)
      with run Suc False none single
      have "r = Inr v" "wrun w' = s1" "visited w' = set_add (visited w) (node_id node)" by auto
      with log amo known seen show ?thesis by (auto simp: walk_inv_def)
    qed
  qed
qed

lemma run_start_nodes_once:
  assumes "set ns \<subseteq> set (start_nodes_of nodes connections)"
    and "run_start_nodes env ctx connections node_map depth ns acc w = (r, w')"
    and "walk_inv before (start_nodes_of nodes connections) w ids"
  shows "\<exists>ids'. dispatched (execution_log (exe (wrun w'))) = before @ ids'
                \<and> at_most_once ids'
                \<and> list_all (\<lambda>j. j \<in> set (map node_id (start_nodes_of nodes connections))) ids'"
  using assms
proof (induction ns arbitrary: acc w ids)
  case Nil
  then show ?case by (auto simp: walk_inv_def)
next
  case (Cons n ns)
  have start: "n \<in> set (start_nodes_of nodes connections)" using Cons.prems(1) by simp
  have none: "filter (\<lambda>conn. py_eq (to_node conn) (node_id n)) connections = []"
    by (rule start_node_no_prerequisites [OF start])
  obtain r1 w1 where step: "execute_node env ctx connections node_map depth n w = (r1, w1)"
    by (cases "execute_node env ctx connections node_map depth n w")
  from start_node_step [OF none start step Cons.prems(3)]
  obtain ids1 where ids1: "dispatched (execution_log (exe (wrun w1))) = before @ ids1"
      "at_most_once ids1"
      "list_all (\<lambda>j. j \<in> set (map node_id (start_nodes_of nodes connections))) ids1"
      "\<not> isl r1 \<longrightarrow> walk_inv before (start_nodes_of nodes connections) w1 ids1" by blast
  show ?case
  proof (cases r1)
    case (Inl e)
    with Cons.prems(2) step have "w' = w1" by simp
    with ids1 show ?thesis by blast
  next
    case (Inr v)
    with Cons.prems(2) step
    have rest: "run_start_nodes env ctx connections node_map depth ns (acc @ [v]) w1 = (r, w')"
      by simp
    from Inr ids1(4) have inv1: "walk_inv before (start_nodes_of nodes connections) w1 ids1"
      by simp
    from Cons.prems(1) have sub: "set ns \<subseteq> set (start_nodes_of nodes connections)" by simp
    from Cons.IH [OF sub rest inv1] show ?thesis .
  qed
qed

text \<open>
  Whatever the graph: the dispatches of \<^verbatim>\<open>_execute_workflow_graph\<close> are ids of start
  nodes, none twice.
\<close>

lemma only_start_nodes_dispatched:
  "\<exists>ids. dispatched (execution_log (exe (snd (execute_workflow_graph env ctx depth nodes
                                                   connections s))))
           = dispatched (execution_log (exe s)) @ ids
         \<and> at_most_once ids
         \<and> list_all (\<lambda>j. j \<in> set (map node_id (start_nodes_of nodes connections))) ids"
proof -
  let ?w = "\<lparr>wrun = s, visited = [], results = []\<rparr>"
  let ?P = "\<lambda>s'. \<exists>ids. dispatched (execution_log (exe s'))
                          = dispatched (execution_log (exe s)) @ ids
                   \<and> at_most_once ids
                   \<and> list_all (\<lambda>j. j \<in> set (map node_id (start_nodes_of nodes connections))) ids"
  have inv: "walk_inv (dispatched (execution_log (exe s))) (start_nodes_of nodes connections) ?w []"
    by (simp add: walk_inv_def at_most_once_Nil)
  have walk: "\<And>nm r w'. run_start_nodes env ctx connections nm depth
                (start_nodes_of nodes connections) [] ?w = (r, w') \<Longrightarrow> ?P (wrun w')"
    by (rule run_start_nodes_once [OF subset_refl _ inv])
  have same: "?P s"
    using at_most_once_Nil by auto
  show ?thesis
    using walk same
    by (auto simp: execute_workflow_graph_def Let_def split: sum.splits prod.splits)
qed

lemma try_execute_once:
  "\<exists>ids. dispatched (execution_log (exe (snd (try_execute env ctx depth workflow_data s))))
           = dispatched (execution_log (exe s)) @ ids
         \<and> at_most_once ids"
proof -
  have same: "\<exists>ids. dispatched (execution_log (exe s)) = dispatched (execution_log (exe s)) @ ids
              \<and> at_most_once ids"
    using at_most_once_Nil by auto
  show ?thesis
    using same only_start_nodes_dispatched [of env ctx depth _ _ s]
    by (auto simp: try_execute_def split: sum.splits)
qed

text \<open>
  X1, the memoization law: for every payload, initial input, environment, recursion
  budget, engine and clock, no node id is dispatched twice in a run of
  \<^verbatim>\<open>execute_workflow\<close>: among the \<^verbatim>\<open>info\<close> entries of the log of the run's record, and so
  of the log of the returned mapping, each node id occurs at most once.
\<close>

theorem every_node_dispatched_at_most_once:
  "(case execute_workflow env depth engine k workflow_data input_data of
      (outcome, engine', k') \<Rightarrow>
        (case map_of (executions engine') (''exec_'' @ str_int (py_int (clock env k))) of
           None \<Rightarrow> False
         | Some x \<Rightarrow> at_most_once (dispatched (execution_log x)))
        \<and> (case outcome of
              Inl e \<Rightarrow> \<not> caught e
            | Inr r \<Rightarrow> at_most_once (dispatched (result_log r))))"
proof -
  let ?s0 = "\<lparr>exe = new_execution (''exec_'' @ str_int (py_int (clock env k)))
                        input_data (clock env (Suc k)),
                ticks = Suc (Suc k)\<rparr>"
  obtain res s1
    where t: "try_execute env (engine_context engine) depth workflow_data ?s0 = (res, s1)"
    by (cases "try_execute env (engine_context engine) depth workflow_data ?s0")
  from try_execute_once [of env "engine_context engine" depth workflow_data ?s0] t
  obtain ids where ids: "dispatched (execution_log (exe s1)) = ids" "at_most_once ids"
    by (auto simp: new_execution_def read_defs)
  show ?thesis
  proof (cases res)
    case (Inr v)
    with t ids show ?thesis
      by (simp add: execute_workflow_def clock_read_def time_time_def log_append_def Let_def
            result_log_def dispatched_append dispatched_other_level update_conv')
  next
    case (Inl e)
    with t ids show ?thesis
      by (cases "caught e")
         (simp_all add: execute_workflow_def clock_read_def time_time_def log_append_def Let_def
            result_log_def dispatched_append dispatched_other_level update_conv')
  qed
qed

subsection \<open>Stopping what is not running\<close>

text \<open>
  X2: \<^verbatim>\<open>stop_execution\<close> on an id the registry does not hold, or on a record whose status
  is not \<^verbatim>\<open>running\<close>, returns \<^verbatim>\<open>False\<close> and leaves the engine, the record's end time
  included, and the clock untouched.
\<close>

theorem stop_is_a_no_op_unless_running:
  assumes "map_of (executions engine) i = None
           \<or> (\<exists>x. map_of (executions engine) i = Some x \<and> status x \<noteq> ''running'')"
  shows "stop_execution env engine k i = (Inr False, engine, k)"
  using assms by (intro stop_not_running) (auto split: option.splits)

theorem stop_is_a_no_op_unless_running_witness:
  "(map_of (executions running_engine) ''exec_7'' = None
    \<or> (\<exists>x. map_of (executions running_engine) ''exec_7'' = Some x \<and> status x \<noteq> ''running''))
   \<and> stop_execution sample_env running_engine 3 ''exec_7'' = (Inr False, running_engine, 3)"
proof -
  have h: "map_of (executions running_engine) ''exec_7'' = None
    \<or> (\<exists>x. map_of (executions running_engine) ''exec_7'' = Some x \<and> status x \<noteq> ''running'')"
    by (simp add: running_engine_def)
  from h stop_is_a_no_op_unless_running [OF h, of sample_env 3] show ?thesis by blast
qed

subsection \<open>The strategies of a MERGE node\<close>

lemma digit_chars: "char_of (48 :: nat) = CHR ''0''" "char_of (49 :: nat) = CHR ''1''"
  by code_simp+

text \<open>
  X3: a MERGE node on the inputs \<^verbatim>\<open>a\<close>, \<^verbatim>\<open>b\<close> returns \<^verbatim>\<open>"a b"\<close> under
  \<^verbatim>\<open>concatenate\<close>, the list of both under \<^verbatim>\<open>array\<close>, the map from \<^verbatim>\<open>input_0\<close> and
  \<^verbatim>\<open>input_1\<close> under \<^verbatim>\<open>json\<close>, and the first value under any other strategy; with no
  input, any other strategy gives \<^verbatim>\<open>None\<close>.
\<close>

theorem merge_strategies:
  "execute_merge_node sample_env ctx (merge_node ''concatenate'') two_inputs s
     = (Inr (PStr ''a b''), s)
   \<and> execute_merge_node env ctx (merge_node ''array'') two_inputs s
     = (Inr (PList [PStr ''a'', PStr ''b'']), s)
   \<and> execute_merge_node env ctx (merge_node ''json'') two_inputs s
     = (Inr (PDict [(''input_0'', PStr ''a''), (''input_1'', PStr ''b'')]), s)
   \<and> execute_merge_node env ctx (merge_node ''first'') two_inputs s = (Inr (PStr ''a''), s)
   \<and> execute_merge_node env ctx (merge_node ''first'') [] s = (Inr PNone, s)"
  by (simp add: execute_merge_node_def merge_node_def two_inputs_def prim_defs sample_env_def
        sample_str_def str_nat.simps digit_char_def digit_chars Let_def)

subsection \<open>The validator on a cycle and on an orphan\<close>

text \<open>
  X4: \<^verbatim>\<open>validate_workflow\<close> on the cycle \<open>A \<rightarrow> B \<rightarrow> C \<rightarrow> A\<close> reports
  \<^verbatim>\<open>valid = False\<close> with the one error \<^verbatim>\<open>Circular dependency detected in workflow\<close>,
  under every environment and every recursion budget of at least four calls.
\<close>

theorem validate_reports_cycle:
  "validate_workflow env (Suc (Suc (Suc (Suc depth)))) cycle_of_three
     = Inr (PDict [(''valid'', PBool False),
                   (''errors'', PList [PStr ''Circular dependency detected in workflow'']),
                   (''warnings'', PList []),
                   (''node_count'', PInt 3),
                   (''connection_count'', PInt 3)])"
  by (simp add: validate_workflow_def check_circular_dependencies_def cycle_of_three_def
        wire_defs prim_defs Let_def)

text \<open>
  X5: \<^verbatim>\<open>validate_workflow\<close> on \<open>A \<rightarrow> B\<close> next to a node \<open>C\<close> that no connection touches
  reports \<^verbatim>\<open>valid = True\<close>, no error, and one warning, that of \<open>C\<close>.
\<close>

theorem validate_warns_of_orphan:
  "validate_workflow env (Suc (Suc depth)) chain_and_orphan
     = Inr (PDict [(''valid'', PBool True),
                   (''errors'', PList []),
                   (''warnings'',
                    PList [PStr (''Node '' @ quote (py_str env (PStr ''C''))
                                 @ '' is not connected to the workflow'')]),
                   (''node_count'', PInt 3),
                   (''connection_count'', PInt 1)])"
  by (simp add: validate_workflow_def check_circular_dependencies_def chain_and_orphan_def
        wire_defs prim_defs Let_def)

end
